theory Spec2Isabelle
  imports Complex_Main
begin

section \<open>Python values, exceptions and clocks\<close>

text \<open>
  The governance layer of the AI functions lives in \<^verbatim>\<open>functions/ai/middleware.py\<close>
  (identity verifier, rate limiter, cost governor, audit sink) and in
  \<^verbatim>\<open>functions/ai/results_processor.py\<close> (circuit breaker around the smart-contract
  call). The embedding threads the module-level caches and the processor object through
  every function as explicit state, and turns every \<^verbatim>\<open>raise\<close> into a value.

  Exceptions: every class below derives from Python's \<^verbatim>\<open>Exception\<close>, so a bare
  \<^verbatim>\<open>except Exception\<close> catches each of them. \<^verbatim>\<open>jwt.ExpiredSignatureError\<close> is a
  subclass of \<^verbatim>\<open>jwt.InvalidTokenError\<close>; the handlers of the source list the subclass
  first, and the model keeps that order.
\<close>

datatype exn =
    KeyError string
  | ValueError string
  | ExpiredSignatureError
  | InvalidTokenError
  | IndexError
  | OtherException string

text \<open>\<^verbatim>\<open>str(e)\<close> as used for the audit record of a failed invocation.\<close>

fun exn_str :: "exn \<Rightarrow> string" where
  "exn_str (KeyError k) = [CHR 0x27] @ k @ [CHR 0x27]"
| "exn_str (ValueError m) = m"
| "exn_str ExpiredSignatureError = ''Signature has expired''"
| "exn_str InvalidTokenError = ''Invalid token''"
| "exn_str IndexError = ''list index out of range''"
| "exn_str (OtherException m) = m"

text \<open>
  JSON values as Python sees them. \<^verbatim>\<open>bool\<close> is a subclass of \<^verbatim>\<open>int\<close> in Python, which
  matters for \<^verbatim>\<open>isinstance(x, (int, float))\<close>. A float of a request body is held as
  the real number that the double denotes; the code only compares these values, and a
  comparison of doubles is the comparison of the reals they denote.
\<close>

datatype pyval =
    PNone
  | PBool bool
  | PInt int
  | PFloat real
  | PStr string
  | POther

text \<open>\<^verbatim>\<open>isinstance(v, (int, float))\<close> together with the numeric value of \<^verbatim>\<open>v\<close>.\<close>

fun as_number :: "pyval \<Rightarrow> real option" where
  "as_number (PBool b) = Some (if b then 1 else 0)"
| "as_number (PInt i) = Some (of_int i)"
| "as_number (PFloat r) = Some r"
| "as_number _ = None"

text \<open>\<^verbatim>\<open>int(x)\<close> on a float truncates towards zero.\<close>

definition py_int :: "real \<Rightarrow> int" where
  "py_int r = (if 0 \<le> r then \<lfloor>r\<rfloor> else \<lceil>r\<rceil>)"

text \<open>\<^verbatim>\<open>str(n)\<close> for an integer, as an f-string renders it.\<close>

fun str_nat :: "nat \<Rightarrow> string" where
  "str_nat n = (if n < 10 then [char_of (48 + n)]
                else str_nat (n div 10) @ [char_of (48 + n mod 10)])"

declare str_nat.simps [simp del]

definition str_int :: "int \<Rightarrow> string" where
  "str_int i = (if i < 0 then CHR ''-'' # str_nat (nat (- i)) else str_nat (nat i))"

section \<open>Python floats\<close>

text \<open>
  A Python \<^verbatim>\<open>float\<close> is an IEEE-754 binary64 number: a finite double, an infinity or a
  NaN. A finite double is held as the real number it denotes (the sign of a zero is not
  kept: no comparison sees it). Arithmetic on floats computes the exact result and rounds
  it to the nearest double, a tie going to the double whose significand is even.
\<close>

datatype pyfloat = Finite real | PosInf | NegInf | NaN

text \<open>Rounding to the nearest integer, a tie going to the even one.\<close>

definition round_half_even :: "real \<Rightarrow> int" where
  "round_half_even r =
     (let f = \<lfloor>r\<rfloor>; d = r - of_int f
      in if d < 1 / 2 then f else if d > 1 / 2 then f + 1 else if even f then f else f + 1)"

text \<open>
  The binade of a non-zero real \<open>r\<close> is the exponent \<open>e\<close> with \<open>2 ^ e \<le> \<bar>r\<bar> < 2 ^ (e + 1)\<close>.
  A double has 53 significant bits, so the doubles of that binade are the multiples of
  \<open>2 ^ (e - 52)\<close>; below the smallest normal number \<open>2 ^ (- 1022)\<close> the spacing stays at
  \<open>2 ^ (- 1074)\<close> (subnormal numbers).
\<close>

definition binade :: "real \<Rightarrow> int" where
  "binade r = \<lfloor>log 2 \<bar>r\<bar>\<rfloor>"

definition ulp_exponent :: "real \<Rightarrow> int" where
  "ulp_exponent r = max (binade r - 52) (- 1074)"

text \<open>
  The double nearest to a real. A result that rounds to \<open>2 ^ 1024\<close> or beyond in
  magnitude overflows to an infinity.
\<close>

definition round_double :: "real \<Rightarrow> pyfloat" where
  "round_double r =
     (if r = 0 then Finite 0
      else let q = 2 powi ulp_exponent r;
               m = of_int (round_half_even (r / q)) * q
           in if \<bar>m\<bar> \<ge> 2 powi 1024 then (if r > 0 then PosInf else NegInf) else Finite m)"

text \<open>\<^verbatim>\<open>x + y\<close> on floats.\<close>

fun float_add :: "pyfloat \<Rightarrow> pyfloat \<Rightarrow> pyfloat" where
  "float_add (Finite x) (Finite y) = round_double (x + y)"
| "float_add NaN y = NaN"
| "float_add x NaN = NaN"
| "float_add PosInf NegInf = NaN"
| "float_add NegInf PosInf = NaN"
| "float_add PosInf y = PosInf"
| "float_add x PosInf = PosInf"
| "float_add NegInf y = NegInf"
| "float_add x NegInf = NegInf"

text \<open>\<^verbatim>\<open>x > y\<close> on floats: every comparison with a NaN is false.\<close>

fun float_gt :: "pyfloat \<Rightarrow> pyfloat \<Rightarrow> bool" where
  "float_gt (Finite x) (Finite y) = (x > y)"
| "float_gt NaN y = False"
| "float_gt x NaN = False"
| "float_gt PosInf PosInf = False"
| "float_gt PosInf y = True"
| "float_gt x PosInf = False"
| "float_gt NegInf y = False"
| "float_gt x NegInf = True"

text \<open>
  The doubles that Python reads for the literals \<^verbatim>\<open>0.6\<close>, \<^verbatim>\<open>0.1\<close>, \<^verbatim>\<open>0.01\<close>, \<^verbatim>\<open>0.11\<close> and
  \<^verbatim>\<open>99.89\<close>: each is the multiple of the spacing of its binade nearest to the decimal.
\<close>

definition double_0_6 :: real where
  "double_0_6 = 5404319552844595 / 9007199254740992"

definition double_0_1 :: real where
  "double_0_1 = 3602879701896397 / 36028797018963968"

definition double_0_01 :: real where
  "double_0_01 = 5764607523034235 / 576460752303423488"

definition double_0_11 :: real where
  "double_0_11 = 7926335344172073 / 72057594037927936"

definition double_99_89 :: real where
  "double_99_89 = 7029133855906857 / 70368744177664"

section \<open>Circuit breaker (\<^verbatim>\<open>results_processor.py\<close>)\<close>

text \<open>
  The breaker is four attributes of the single \<^verbatim>\<open>AIResultsProcessor\<close> object.
  \<^verbatim>\<open>time.time()\<close> is passed in as the argument \<open>now\<close>.
\<close>

record AIResultsProcessor =
  circuit_breaker_failures :: int
  circuit_breaker_threshold :: int
  circuit_breaker_timeout :: real
  last_failure_time :: real

definition init_processor :: AIResultsProcessor where
  "init_processor =
     \<lparr>circuit_breaker_failures = 0, circuit_breaker_threshold = 5,
      circuit_breaker_timeout = 300, last_failure_time = 0\<rparr>"

definition is_circuit_breaker_open :: "real \<Rightarrow> AIResultsProcessor \<Rightarrow> bool \<times> AIResultsProcessor" where
  "is_circuit_breaker_open now p =
     (if circuit_breaker_failures p < circuit_breaker_threshold p then (False, p)
      else if now - last_failure_time p > circuit_breaker_timeout p
      then (False, p\<lparr>circuit_breaker_failures := 0\<rparr>)
      else (True, p))"

definition handle_circuit_breaker_failure :: "real \<Rightarrow> AIResultsProcessor \<Rightarrow> AIResultsProcessor" where
  "handle_circuit_breaker_failure now p =
     p\<lparr>circuit_breaker_failures := circuit_breaker_failures p + 1, last_failure_time := now\<rparr>"

text \<open>Line 114 of \<^verbatim>\<open>process_results\<close>: \<^verbatim>\<open>self.circuit_breaker_failures = 0\<close>.\<close>

definition record_success :: "AIResultsProcessor \<Rightarrow> AIResultsProcessor" where
  "record_success p = p\<lparr>circuit_breaker_failures := 0\<rparr>"

text \<open>Consecutive failures, stamped with the clock readings \<open>ts\<close> in order.\<close>

fun failures_at :: "real list \<Rightarrow> AIResultsProcessor \<Rightarrow> AIResultsProcessor" where
  "failures_at [] p = p"
| "failures_at (t # ts) p = failures_at ts (handle_circuit_breaker_failure t p)"

section \<open>Caches, configuration and the audit sink (\<^verbatim>\<open>middleware.py\<close>, \<^verbatim>\<open>config.py\<close>)\<close>

text \<open>
  A \<^verbatim>\<open>cachetools.TTLCache\<close> as the code observes it: its live entries under their string
  keys, and whether a lookup or a store raises (the store being unavailable). Expiry and
  capacity eviction belong to the library and its own clock; an entry of the model is one
  that the library still returns.
\<close>

record 'v ttl_cache =
  entries :: "string \<rightharpoonup> 'v"
  get_raises :: "exn option"
  set_raises :: "exn option"

definition cache_get :: "'v ttl_cache \<Rightarrow> string \<Rightarrow> exn + 'v option" where
  "cache_get c k = (case get_raises c of Some e \<Rightarrow> Inl e | None \<Rightarrow> Inr (entries c k))"

definition cache_set :: "'v ttl_cache \<Rightarrow> string \<Rightarrow> 'v \<Rightarrow> exn + 'v ttl_cache" where
  "cache_set c k v =
     (case set_raises c of Some e \<Rightarrow> Inl e | None \<Rightarrow> Inr (c\<lparr>entries := (entries c)(k \<mapsto> v)\<rparr>))"

definition healthy :: "'v ttl_cache \<Rightarrow> bool" where
  "healthy c = (get_raises c = None \<and> set_raises c = None)"

record RateLimitInfo =
  rl_user_id :: string
  rl_endpoint :: string
  rl_request_count :: int
  rl_window_start :: int
  rl_limit :: int

record CostMonitoring =
  cm_user_id :: string
  cm_service :: string
  cm_cost :: pyfloat
  cm_request_count :: int
  cm_timestamp :: int

record AuditLog =
  al_user_id :: "string option"
  al_action :: string
  al_endpoint :: string
  al_timestamp :: string
  al_request_id :: string
  al_success :: bool
  al_error :: "string option"
  al_metadata :: "(string \<times> pyval) list"

record cached_result =
  cr_txHash :: string
  cr_timestamp :: string
  cr_qualityScore :: pyval

text \<open>
  The module-level state: the three caches of \<^verbatim>\<open>middleware.py\<close>, the stream of
  \<^verbatim>\<open>Audit Event\<close> lines written by the logger, and the results cache and processor object
  of \<^verbatim>\<open>results_processor.py\<close> and \<^verbatim>\<open>main.py\<close>.
\<close>

record state =
  rate_limit_cache :: "RateLimitInfo ttl_cache"
  cost_cache :: "CostMonitoring ttl_cache"
  audit_cache :: "AuditLog ttl_cache"
  audit_lines :: "AuditLog list"
  results_cache :: "cached_result ttl_cache"
  processor :: AIResultsProcessor

record service_limits =
  REQUESTS_PER_MINUTE :: int
  REQUESTS_PER_HOUR :: int
  COST_LIMIT_PER_DAY :: real

text \<open>
  \<^verbatim>\<open>AI_CONFIG['RATE_LIMITS']\<close> of \<^verbatim>\<open>config.py\<close>. The daily caps \<^verbatim>\<open>100.0\<close>, \<^verbatim>\<open>50.0\<close> and
  \<^verbatim>\<open>75.0\<close> are doubles that denote these integers exactly.
\<close>

definition RATE_LIMITS :: "string \<rightharpoonup> service_limits" where
  "RATE_LIMITS = map_of
     [(''GEMINI'', \<lparr>REQUESTS_PER_MINUTE = 60, REQUESTS_PER_HOUR = 1000, COST_LIMIT_PER_DAY = 100\<rparr>),
      (''TRANSLATE'', \<lparr>REQUESTS_PER_MINUTE = 100, REQUESTS_PER_HOUR = 2000, COST_LIMIT_PER_DAY = 50\<rparr>),
      (''SPEECH'', \<lparr>REQUESTS_PER_MINUTE = 30, REQUESTS_PER_HOUR = 500, COST_LIMIT_PER_DAY = 75\<rparr>)]"

text \<open>\<^verbatim>\<open>f"{x}"\<close> for a user id that may be \<^verbatim>\<open>None\<close>.\<close>

definition fmt_opt :: "string option \<Rightarrow> string" where
  "fmt_opt u = (case u of None \<Rightarrow> ''None'' | Some v \<Rightarrow> v)"

text \<open>
  \<^verbatim>\<open>log_audit_event\<close>: the event is stored under \<^verbatim>\<open>user:second\<close> and then written to the
  log; any exception is swallowed, so the function never raises. \<open>t\<close> is \<^verbatim>\<open>time.time()\<close>.
\<close>

definition log_audit_event :: "real \<Rightarrow> AuditLog \<Rightarrow> state \<Rightarrow> state" where
  "log_audit_event t event s =
     (let audit_key = fmt_opt (al_user_id event) @ '':'' @ str_int (py_int t)
      in case cache_set (audit_cache s) audit_key event of
           Inl e \<Rightarrow> s
         | Inr c \<Rightarrow> s\<lparr>audit_cache := c, audit_lines := audit_lines s @ [event]\<rparr>)"

section \<open>Identity verifier: \<^verbatim>\<open>authenticate_token\<close>\<close>

text \<open>
  A response is the pair returned to Flask: the JSON body and the HTTP status. The request
  carries its headers and path, and the two attributes the verifier attaches on success
  (\<^verbatim>\<open>getattr(request, 'user_id', None)\<close> reads \<open>None\<close> when the attribute was never set).
  A handler is the wrapped function \<^verbatim>\<open>f\<close> of a decorator.
\<close>

type_synonym response = "(string \<times> pyval) list \<times> int"

record request =
  headers :: "string \<rightharpoonup> string"
  path :: string
  user_id :: "string option"
  user_address :: "string option"

type_synonym handler = "request \<Rightarrow> state \<Rightarrow> (exn + response) \<times> state"

record jwt_claims =
  claim_userId :: "string option"
  claim_address :: "string option"

text \<open>
  What lies outside the repository: the secret store behind \<^verbatim>\<open>get_secure_config\<close> (which
  raises \<^verbatim>\<open>ValueError\<close> when a secret cannot be read) and PyJWT's \<^verbatim>\<open>jwt.decode\<close>, which
  returns the claims or raises.
\<close>

record env =
  jwt_signing_key :: "string option"
  jwt_decode :: "string \<Rightarrow> string \<Rightarrow> exn + jwt_claims"

definition get_secure_config :: "env \<Rightarrow> exn + string" where
  "get_secure_config ev =
     (case jwt_signing_key ev of
        None \<Rightarrow> Inl (ValueError ''Configuration error: Unable to access required secrets'')
      | Some k \<Rightarrow> Inr k)"

definition startswith :: "string \<Rightarrow> string \<Rightarrow> bool" where
  "startswith pre str = (take (length pre) str = pre)"

text \<open>\<^verbatim>\<open>str.split(sep)\<close> for a one-character separator.\<close>

fun split_on :: "char \<Rightarrow> string \<Rightarrow> string list" where
  "split_on c [] = [[]]"
| "split_on c (x # xs) =
     (if x = c then [] # split_on c xs
      else (case split_on c xs of [] \<Rightarrow> [[x]] | w # ws \<Rightarrow> (x # w) # ws))"

text \<open>
  Line 55: \<^verbatim>\<open>auth_header.split(' ')[1] if auth_header and auth_header.startswith('Bearer ') else None\<close>.
\<close>

definition bearer_token :: "string option \<Rightarrow> exn + string option" where
  "bearer_token auth_header =
     (case auth_header of
        None \<Rightarrow> Inr None
      | Some h \<Rightarrow>
          if h \<noteq> [] \<and> startswith ''Bearer '' h
          then (case split_on CHR '' '' h of
                  a # b # rest \<Rightarrow> Inr (Some b)
                | _ \<Rightarrow> Inl IndexError)
          else Inr None)"

definition request_id_of :: "request \<Rightarrow> string" where
  "request_id_of req = (case headers req ''X-Request-ID'' of None \<Rightarrow> ''unknown'' | Some r \<Rightarrow> r)"

definition auth_event :: "request \<Rightarrow> string \<Rightarrow> string option \<Rightarrow> bool \<Rightarrow> string option \<Rightarrow> AuditLog" where
  "auth_event req stamp uid ok err =
     \<lparr>al_user_id = uid, al_action = ''authenticate'', al_endpoint = path req,
      al_timestamp = stamp, al_request_id = request_id_of req, al_success = ok,
      al_error = err, al_metadata = []\<rparr>"

text \<open>The body of the \<^verbatim>\<open>try\<close> block, lines 70 to 87; the wrapped function runs inside it.\<close>

definition authenticate_try ::
  "env \<Rightarrow> real \<Rightarrow> string \<Rightarrow> handler \<Rightarrow> string \<Rightarrow> request \<Rightarrow> state \<Rightarrow> (exn + response) \<times> state" where
  "authenticate_try ev t stamp f token req s =
     (case get_secure_config ev of
        Inl e \<Rightarrow> (Inl e, s)
      | Inr key \<Rightarrow>
          (case jwt_decode ev token key of
             Inl e \<Rightarrow> (Inl e, s)
           | Inr decoded \<Rightarrow>
               let req' = req\<lparr>user_id := claim_userId decoded, user_address := claim_address decoded\<rparr>;
                   s' = log_audit_event t (auth_event req stamp (user_id req') True None) s
               in f req' s'))"

definition authenticate_token ::
  "env \<Rightarrow> real \<Rightarrow> string \<Rightarrow> handler \<Rightarrow> request \<Rightarrow> state \<Rightarrow> (exn + response) \<times> state" where
  "authenticate_token ev t stamp f req s =
     (case bearer_token (headers req ''Authorization'') of
        Inl e \<Rightarrow> (Inl e, s)
      | Inr token \<Rightarrow>
          if token = None \<or> token = Some []
          then (Inr ([(''error'', PStr ''Access token required'')], 401),
                log_audit_event t
                  (auth_event req stamp (Some ''unknown'') False (Some ''Access token required'')) s)
          else
            (case authenticate_try ev t stamp f (case token of Some tk \<Rightarrow> tk | None \<Rightarrow> []) req s of
               (Inr r, s') \<Rightarrow> (Inr r, s')
             | (Inl ExpiredSignatureError, s') \<Rightarrow>
                 (Inr ([(''error'', PStr ''Token expired'')], 403),
                  log_audit_event t
                    (auth_event req stamp (Some ''unknown'') False (Some ''Token expired'')) s')
             | (Inl InvalidTokenError, s') \<Rightarrow>
                 (Inr ([(''error'', PStr ''Invalid or expired token'')], 403),
                  log_audit_event t
                    (auth_event req stamp (Some ''unknown'') False (Some ''Invalid token'')) s')
             | (Inl e, s') \<Rightarrow>
                 (Inr ([(''error'', PStr ''Authentication service unavailable'')], 500), s')))"

section \<open>Rate limiter: \<^verbatim>\<open>rate_limiter\<close>\<close>

definition minute_key :: "string \<Rightarrow> string \<Rightarrow> int \<Rightarrow> string" where
  "minute_key uid service window_start = uid @ '':'' @ service @ '':'' @ str_int window_start"

definition hour_key :: "string \<Rightarrow> string \<Rightarrow> int \<Rightarrow> string" where
  "hour_key uid service hourly_window =
     uid @ '':'' @ service @ '':hourly:'' @ str_int hourly_window"

text \<open>
  \<^verbatim>\<open>minute_limit and minute_limit.request_count >= limit\<close>: a missing entry is \<open>None\<close> and
  falsy, a \<^verbatim>\<open>RateLimitInfo\<close> object is truthy.
\<close>

definition at_limit :: "RateLimitInfo option \<Rightarrow> int \<Rightarrow> bool" where
  "at_limit entry bound =
     (case entry of None \<Rightarrow> False | Some i \<Rightarrow> rl_request_count i \<ge> bound)"

definition next_count :: "RateLimitInfo option \<Rightarrow> int" where
  "next_count entry = (case entry of None \<Rightarrow> 1 | Some i \<Rightarrow> rl_request_count i + 1)"

text \<open>
  Lines 137 to 173 of the \<^verbatim>\<open>try\<close> block: the decision. \<open>Inr (Some r)\<close> is an early
  \<^verbatim>\<open>return\<close> of the rejection \<open>r\<close>, \<open>Inr None\<close> falls through to the wrapped function.
\<close>

definition rate_limit_check ::
  "string \<Rightarrow> string \<Rightarrow> int \<Rightarrow> request \<Rightarrow> state \<Rightarrow> (exn + response option) \<times> state" where
  "rate_limit_check service uid now req s =
     (let endpoint = path req;
          window_start = (now div 60) * 60;
          hourly_window = (now div 3600) * 3600;
          rate_limit_key = minute_key uid service window_start;
          hourly_key = hour_key uid service hourly_window
      in case RATE_LIMITS service of
           None \<Rightarrow> (Inl (KeyError service), s)
         | Some config \<Rightarrow>
             (case cache_get (rate_limit_cache s) rate_limit_key of
                Inl e \<Rightarrow> (Inl e, s)
              | Inr minute_limit \<Rightarrow>
                  if at_limit minute_limit (REQUESTS_PER_MINUTE config)
                  then (Inr (Some ([(''error'', PStr ''Rate limit exceeded''),
                                    (''retryAfter'', PInt (60 - (now - window_start)))], 429)), s)
                  else
                    (case cache_get (rate_limit_cache s) hourly_key of
                       Inl e \<Rightarrow> (Inl e, s)
                     | Inr hourly_limit \<Rightarrow>
                         if at_limit hourly_limit (REQUESTS_PER_HOUR config)
                         then (Inr (Some ([(''error'', PStr ''Hourly rate limit exceeded''),
                                           (''retryAfter'', PInt (3600 - (now - hourly_window)))],
                                          429)), s)
                         else
                           (case cache_set (rate_limit_cache s) rate_limit_key
                                   \<lparr>rl_user_id = uid, rl_endpoint = endpoint,
                                    rl_request_count = next_count minute_limit,
                                    rl_window_start = window_start,
                                    rl_limit = REQUESTS_PER_MINUTE config\<rparr> of
                              Inl e \<Rightarrow> (Inl e, s)
                            | Inr c1 \<Rightarrow>
                                (case cache_set c1 hourly_key
                                        \<lparr>rl_user_id = uid, rl_endpoint = endpoint,
                                         rl_request_count = next_count hourly_limit,
                                         rl_window_start = hourly_window,
                                         rl_limit = REQUESTS_PER_HOUR config\<rparr> of
                                   Inl e \<Rightarrow> (Inl e, s\<lparr>rate_limit_cache := c1\<rparr>)
                                 | Inr c2 \<Rightarrow> (Inr None, s\<lparr>rate_limit_cache := c2\<rparr>))))))"

text \<open>The whole \<^verbatim>\<open>try\<close> block: line 175 runs the wrapped function inside it.\<close>

definition rate_limiter_try ::
  "string \<Rightarrow> handler \<Rightarrow> string \<Rightarrow> int \<Rightarrow> request \<Rightarrow> state \<Rightarrow> (exn + response) \<times> state" where
  "rate_limiter_try service f uid now req s =
     (case rate_limit_check service uid now req s of
        (Inl e, s') \<Rightarrow> (Inl e, s')
      | (Inr (Some r), s') \<Rightarrow> (Inr r, s')
      | (Inr None, s') \<Rightarrow> f req s')"

text \<open>
  The decorated function. \<open>t\<close> is \<^verbatim>\<open>time.time()\<close>; the code keeps \<^verbatim>\<open>int(time.time())\<close>.
  It never raises: both handlers of the \<^verbatim>\<open>try\<close> return a response.
\<close>

definition rate_limiter :: "string \<Rightarrow> handler \<Rightarrow> real \<Rightarrow> request \<Rightarrow> state \<Rightarrow> response \<times> state" where
  "rate_limiter service f t req s =
     (case user_id req of
        None \<Rightarrow> (([(''error'', PStr ''Authentication required for rate limiting'')], 401), s)
      | Some uid \<Rightarrow>
          if uid = []
          then (([(''error'', PStr ''Authentication required for rate limiting'')], 401), s)
          else
            (case rate_limiter_try service f uid (py_int t) req s of
               (Inr r, s') \<Rightarrow> (r, s')
             | (Inl (KeyError k), s') \<Rightarrow> (([(''error'', PStr ''Service configuration error'')], 500), s')
             | (Inl e, s') \<Rightarrow>
                 (([(''error'', PStr ''Rate limiting service unavailable'')], 500), s')))"

section \<open>Cost governor: \<^verbatim>\<open>check_cost_limits\<close>\<close>

text \<open>
  The body of the \<^verbatim>\<open>try\<close> block, lines 193 to 212. The estimated cost and the stored
  cumulative cost are floats; lines 197 and 201 each add them as floats, and line 197
  compares the rounded sum with the cap.
\<close>

definition check_cost_limits_try ::
  "string \<Rightarrow> real \<Rightarrow> string \<Rightarrow> string \<Rightarrow> pyfloat \<Rightarrow> state \<Rightarrow> (exn + bool) \<times> state" where
  "check_cost_limits_try cost_key t uid service estimated_cost s =
     (case RATE_LIMITS service of
        None \<Rightarrow> (Inl (KeyError service), s)
      | Some config \<Rightarrow>
          (case cache_get (cost_cache s) cost_key of
             Inl e \<Rightarrow> (Inl e, s)
           | Inr daily_cost \<Rightarrow>
               let current_cost = (case daily_cost of None \<Rightarrow> Finite 0 | Some d \<Rightarrow> cm_cost d)
               in if float_gt (float_add current_cost estimated_cost)
                       (Finite (COST_LIMIT_PER_DAY config))
                  then (Inr False, s)
                  else
                    (let new_cost = float_add current_cost estimated_cost;
                         new_count = (case daily_cost of None \<Rightarrow> 1 | Some d \<Rightarrow> cm_request_count d + 1)
                     in case cache_set (cost_cache s) cost_key
                               \<lparr>cm_user_id = uid, cm_service = service, cm_cost = new_cost,
                                cm_request_count = new_count, cm_timestamp = py_int t\<rparr> of
                          Inl e \<Rightarrow> (Inl e, s)
                        | Inr c \<Rightarrow> (Inr True, s\<lparr>cost_cache := c\<rparr>))))"

definition cost_key_of :: "string \<Rightarrow> string \<Rightarrow> string \<Rightarrow> string" where
  "cost_key_of uid service today = uid @ '':'' @ service @ '':'' @ today"

text \<open>
  \<open>today\<close> is \<^verbatim>\<open>time.strftime('%Y-%m-%d')\<close> and \<open>t\<close> is \<^verbatim>\<open>time.time()\<close>. The handler of the
  \<^verbatim>\<open>try\<close> turns every exception into \<open>True\<close>.
\<close>

definition check_cost_limits :: "string \<Rightarrow> real \<Rightarrow> string \<Rightarrow> string \<Rightarrow> pyfloat \<Rightarrow> state \<Rightarrow> bool \<times> state" where
  "check_cost_limits today t uid service estimated_cost s =
     (case check_cost_limits_try (cost_key_of uid service today) t uid service estimated_cost s of
        (Inl e, s') \<Rightarrow> (True, s')
      | (Inr b, s') \<Rightarrow> (b, s'))"

section \<open>Sequential runs\<close>

text \<open>
  Requests of one user against one service, issued one after the other at the clock
  readings given. \<open>run_limiter\<close> returns how many of them fell through to the wrapped
  function and the state reached; \<open>run_costs\<close> returns the answers of the cost governor.
\<close>

definition falls_through :: "string \<Rightarrow> real \<Rightarrow> request \<Rightarrow> state \<Rightarrow> bool" where
  "falls_through service t req s =
     (case user_id req of
        None \<Rightarrow> False
      | Some uid \<Rightarrow> uid \<noteq> [] \<and> fst (rate_limit_check service uid (py_int t) req s) = Inr None)"

fun run_limiter :: "string \<Rightarrow> handler \<Rightarrow> request \<Rightarrow> real list \<Rightarrow> state \<Rightarrow> nat \<times> state" where
  "run_limiter service f req [] s = (0, s)"
| "run_limiter service f req (t # ts) s =
     (case run_limiter service f req ts (snd (rate_limiter service f t req s)) of
        (n, s') \<Rightarrow> ((if falls_through service t req s then Suc n else n), s'))"

fun run_costs :: "string \<Rightarrow> string \<Rightarrow> string \<Rightarrow> (real \<times> pyfloat) list \<Rightarrow> state \<Rightarrow> bool list \<times> state" where
  "run_costs today uid service [] s = ([], s)"
| "run_costs today uid service ((t, c) # rest) s =
     (case check_cost_limits today t uid service c s of
        (b, s1) \<Rightarrow> (case run_costs today uid service rest s1 of (bs, s2) \<Rightarrow> (b # bs, s2)))"

text \<open>
  The float sum of the costs whose request was admitted, added one after the other to
  \<open>acc\<close> in the order of the requests, and the sum of the same costs as real numbers.
\<close>

fun admitted_sum :: "pyfloat \<Rightarrow> pyfloat list \<Rightarrow> bool list \<Rightarrow> pyfloat" where
  "admitted_sum acc (c # cs) (b # bs) = admitted_sum (if b then float_add acc c else acc) cs bs"
| "admitted_sum acc cs bs = acc"

fun exact_admitted_sum :: "real list \<Rightarrow> bool list \<Rightarrow> real" where
  "exact_admitted_sum (c # cs) (b # bs) = (if b then c else 0) + exact_admitted_sum cs bs"
| "exact_admitted_sum cs bs = 0"

text \<open>
  The cumulative cost and the request count that the governor reads for a key:
  \<^verbatim>\<open>0.0\<close> and no request when there is no entry.
\<close>

definition ledger_cost :: "state \<Rightarrow> string \<Rightarrow> pyfloat" where
  "ledger_cost s k = (case entries (cost_cache s) k of None \<Rightarrow> Finite 0 | Some d \<Rightarrow> cm_cost d)"

definition ledger_count :: "state \<Rightarrow> string \<Rightarrow> int" where
  "ledger_count s k = (case entries (cost_cache s) k of None \<Rightarrow> 0 | Some d \<Rightarrow> cm_request_count d)"

definition window_count :: "state \<Rightarrow> string \<Rightarrow> int" where
  "window_count s k =
     (case entries (rate_limit_cache s) k of None \<Rightarrow> 0 | Some i \<Rightarrow> rl_request_count i)"

text \<open>The fields of a rejection body.\<close>

definition retry_after :: "response \<Rightarrow> pyval option" where
  "retry_after r = map_of (fst r) ''retryAfter''"

definition error_of :: "response \<Rightarrow> pyval option" where
  "error_of r = map_of (fst r) ''error''"

text \<open>
  The state when the modules have just been imported: empty caches, no audit line yet, and
  the processor as \<^verbatim>\<open>__init__\<close> builds it.
\<close>

definition empty_cache :: "'v ttl_cache" where
  "empty_cache = \<lparr>entries = Map.empty, get_raises = None, set_raises = None\<rparr>"

definition init_state :: state where
  "init_state =
     \<lparr>rate_limit_cache = empty_cache, cost_cache = empty_cache, audit_cache = empty_cache,
      audit_lines = [], results_cache = empty_cache, processor = init_processor\<rparr>"

text \<open>
  Inputs used to exercise the definitions: the endpoint of the test suite, which answers
  \<^verbatim>\<open>{'message': 'success'}\<close> and touches no state, and a request that the identity
  verifier has already marked with its user.
\<close>

definition ok_handler :: handler where
  "ok_handler r s = (Inr ([(''message'', PStr ''success'')], 200), s)"

definition verified_request :: request where
  "verified_request =
     \<lparr>headers = Map.empty, path = ''/speech-to-text'', user_id = Some ''user123'',
      user_address = None\<rparr>"

definition with_rate_entry :: "string \<Rightarrow> int \<Rightarrow> state \<Rightarrow> state" where
  "with_rate_entry k c s =
     s\<lparr>rate_limit_cache := (rate_limit_cache s)\<lparr>entries := (entries (rate_limit_cache s))
          (k \<mapsto> \<lparr>rl_user_id = ''user123'', rl_endpoint = ''/speech-to-text'',
                  rl_request_count = c, rl_window_start = 0, rl_limit = c\<rparr>)\<rparr>\<rparr>"

text \<open>
  Thirty requests to the speech service (per-minute limit 30), one per second of the
  minute that starts at 1200, and the run of them from the initial state. A state whose
  ledger store raises on lookup or on update.
\<close>

definition speech_times :: "real list" where
  "speech_times =
     [1200, 1201, 1202, 1203, 1204, 1205, 1206, 1207, 1208, 1209,
      1210, 1211, 1212, 1213, 1214, 1215, 1216, 1217, 1218, 1219,
      1220, 1221, 1222, 1223, 1224, 1225, 1226, 1227, 1228, 1229]"

definition speech_run :: "nat \<times> state" where
  "speech_run = run_limiter ''SPEECH'' ok_handler verified_request speech_times init_state"

definition broken_ledger :: "exn option \<Rightarrow> exn option \<Rightarrow> state" where
  "broken_ledger g u = init_state\<lparr>cost_cache := empty_cache\<lparr>get_raises := g, set_raises := u\<rparr>\<rparr>"

section \<open>Results processing: \<^verbatim>\<open>AIResultsProcessor.process_results\<close>\<close>

text \<open>
  The request body: a key that is absent is \<open>None\<close>. The submission id and the user token
  are strings and the verification results a dictionary, as the annotations of the source
  say; a dictionary is an association list read with \<open>map_of\<close>.
\<close>

record request_data =
  rd_submissionId :: "string option"
  rd_verificationResults :: "(string \<times> pyval) list option"
  rd_userToken :: "string option"

record AIResultsRequest =
  submission_id :: string
  verification_results :: "(string \<times> pyval) list"
  user_token :: string

record AIResultsResponse =
  resp_submission_id :: string
  resp_processed :: bool
  resp_smart_contract_tx_hash :: "string option"
  resp_cached :: bool
  resp_processing_time :: int

text \<open>\<^verbatim>\<open>AIResultsRequest.__init__\<close>: indexing a missing key raises \<^verbatim>\<open>KeyError\<close>.\<close>

definition mk_request :: "request_data \<Rightarrow> exn + AIResultsRequest" where
  "mk_request d =
     (case rd_submissionId d of
        None \<Rightarrow> Inl (KeyError ''submissionId'')
      | Some sid \<Rightarrow>
          (case rd_verificationResults d of
             None \<Rightarrow> Inl (KeyError ''verificationResults'')
           | Some vr \<Rightarrow>
               Inr \<lparr>submission_id = sid, verification_results = vr,
                    user_token = (case rd_userToken d of None \<Rightarrow> [] | Some u \<Rightarrow> u)\<rparr>))"

text \<open>\<^verbatim>\<open>d.get(k)\<close>: \<open>None\<close> for a missing key.\<close>

definition dict_get :: "(string \<times> pyval) list \<Rightarrow> string \<Rightarrow> pyval" where
  "dict_get d k = (case map_of d k of None \<Rightarrow> PNone | Some v \<Rightarrow> v)"

text \<open>The loop over \<^verbatim>\<open>required_fields\<close>: the first missing field raises.\<close>

fun check_required :: "string list \<Rightarrow> (string \<times> pyval) list \<Rightarrow> exn + unit" where
  "check_required [] results = Inr ()"
| "check_required (fld # flds) results =
     (if map_of results fld = None
      then Inl (ValueError (''Missing required field in verification results: '' @ fld))
      else check_required flds results)"

definition is_str_of_len2 :: "pyval \<Rightarrow> bool" where
  "is_str_of_len2 v = (case v of PStr l \<Rightarrow> \<not> length l < 2 | _ \<Rightarrow> False)"

definition in_range :: "pyval \<Rightarrow> real \<Rightarrow> real \<Rightarrow> bool" where
  "in_range v lo hi = (case as_number v of None \<Rightarrow> False | Some x \<Rightarrow> lo \<le> x \<and> x \<le> hi)"

definition validate_verification_results :: "(string \<times> pyval) list \<Rightarrow> exn + unit" where
  "validate_verification_results results =
     (case check_required [''submissionId'', ''qualityScore'', ''languageDetected'', ''confidence'']
             results of
        Inl e \<Rightarrow> Inl e
      | Inr u \<Rightarrow>
          if \<not> in_range (dict_get results ''qualityScore'') 0 100
          then Inl (ValueError ''Quality score must be a number between 0 and 100'')
          else if \<not> in_range (dict_get results ''confidence'') 0 1
          then Inl (ValueError ''Confidence must be a number between 0 and 1'')
          else if \<not> is_str_of_len2 (dict_get results ''languageDetected'')
          then Inl (ValueError ''Language detected must be a valid language code'')
          else Inr ())"

text \<open>
  \<^verbatim>\<open>_process_verification_results\<close>. The smart-contract call is a placeholder in the source
  (a sleep and a SHA-256 digest of its arguments and the clock); its outcome for this
  invocation, the transaction hash or the exception raised, is the argument \<open>sc\<close>. Any
  exception of the block is re-raised as a \<^verbatim>\<open>ValueError\<close>.
\<close>

record processing_result =
  pr_processed :: bool
  pr_txHash :: string
  pr_passesQuality :: bool

definition index_dict :: "(string \<times> pyval) list \<Rightarrow> string \<Rightarrow> exn + pyval" where
  "index_dict d k = (case map_of d k of None \<Rightarrow> Inl (KeyError k) | Some v \<Rightarrow> Inr v)"

text \<open>\<^verbatim>\<open>x >= c\<close> for a JSON value: a value that is not a number raises \<^verbatim>\<open>TypeError\<close>.\<close>

definition py_ge :: "pyval \<Rightarrow> real \<Rightarrow> exn + bool" where
  "py_ge v c =
     (case as_number v of
        None \<Rightarrow> Inl (OtherException ''TypeError: comparison not supported'')
      | Some x \<Rightarrow> Inr (x \<ge> c))"

definition passes_quality_of :: "pyval \<Rightarrow> pyval \<Rightarrow> exn + bool" where
  "passes_quality_of quality_score confidence =
     (case py_ge quality_score 70 of
        Inl e \<Rightarrow> Inl e
      | Inr b \<Rightarrow> if b then py_ge confidence double_0_6 else Inr False)"

definition process_verification_results_try ::
  "(exn + string) \<Rightarrow> AIResultsRequest \<Rightarrow> exn + processing_result" where
  "process_verification_results_try sc request =
     (case index_dict (verification_results request) ''qualityScore'' of
        Inl e \<Rightarrow> Inl e
      | Inr quality_score \<Rightarrow>
          (case index_dict (verification_results request) ''confidence'' of
             Inl e \<Rightarrow> Inl e
           | Inr confidence \<Rightarrow>
               (case index_dict (verification_results request) ''languageDetected'' of
                  Inl e \<Rightarrow> Inl e
                | Inr language_detected \<Rightarrow>
                    (case passes_quality_of quality_score confidence of
                       Inl e \<Rightarrow> Inl e
                     | Inr passes_quality \<Rightarrow>
                         (case sc of
                            Inl e \<Rightarrow> Inl e
                          | Inr tx \<Rightarrow>
                              Inr \<lparr>pr_processed = True, pr_txHash = tx,
                                   pr_passesQuality = passes_quality\<rparr>)))))"

definition process_verification_results ::
  "(exn + string) \<Rightarrow> AIResultsRequest \<Rightarrow> exn + processing_result" where
  "process_verification_results sc request =
     (case process_verification_results_try sc request of
        Inl e \<Rightarrow> Inl (ValueError (''Results processing failed: '' @ exn_str e))
      | Inr r \<Rightarrow> Inr r)"

text \<open>
  The readings of the clock during one invocation of \<^verbatim>\<open>process_results\<close>:
  \<open>ms_start\<close> is the value of \<^verbatim>\<open>int(time.time() * 1000)\<close> at line 49 and \<open>ms_end\<close> its
  value at line 68, 78 or 119 (one of them is reached); \<open>t_breaker\<close> is \<^verbatim>\<open>time.time()\<close>
  at line 227, \<open>t_failure\<close> at line 237, \<open>t_audit\<close> at line 221, and \<open>stamp\<close> is the string
  of \<^verbatim>\<open>get_current_timestamp\<close>.
\<close>

record clock =
  ms_start :: int
  ms_end :: int
  t_breaker :: real
  t_failure :: real
  t_audit :: real
  stamp :: string

text \<open>The body of the \<^verbatim>\<open>try\<close> block, lines 52 to 116.\<close>

definition process_results_try ::
  "clock \<Rightarrow> (exn + string) \<Rightarrow> request_data \<Rightarrow> state \<Rightarrow> (exn + AIResultsResponse) \<times> state" where
  "process_results_try ck sc d s =
     (case mk_request d of
        Inl e \<Rightarrow> (Inl e, s)
      | Inr request \<Rightarrow>
          (case validate_verification_results (verification_results request) of
             Inl e \<Rightarrow> (Inl e, s)
           | Inr u \<Rightarrow>
              (let cache_key = ''results_'' @ submission_id request
               in (case cache_get (results_cache s) cache_key of
                    Inl e \<Rightarrow> (Inl e, s)
                  | Inr (Some cached_result) \<Rightarrow>
                      (Inr \<lparr>resp_submission_id = submission_id request, resp_processed = True,
                            resp_smart_contract_tx_hash = Some (cr_txHash cached_result),
                            resp_cached = True,
                            resp_processing_time = ms_end ck - ms_start ck\<rparr>, s)
                  | Inr None \<Rightarrow>
                      (case is_circuit_breaker_open (t_breaker ck) (processor s) of
                         (True, p) \<Rightarrow>
                           (Inl (ValueError ''Smart contract integration temporarily unavailable''),
                            s\<lparr>processor := p\<rparr>)
                       | (False, p) \<Rightarrow>
                           (case process_verification_results sc request of
                              Inl e \<Rightarrow> (Inl e, s\<lparr>processor := p\<rparr>)
                            | Inr result \<Rightarrow>
                               (let processing_time = ms_end ck - ms_start ck;
                                    response =
                                      \<lparr>resp_submission_id = submission_id request,
                                       resp_processed = pr_processed result,
                                       resp_smart_contract_tx_hash = Some (pr_txHash result),
                                       resp_cached = False,
                                       resp_processing_time = processing_time\<rparr>;
                                    quality = dict_get (verification_results request) ''qualityScore''
                                in (case (if pr_processed result
                                          then cache_set (results_cache s) cache_key
                                                 \<lparr>cr_txHash = pr_txHash result, cr_timestamp = stamp ck,
                                                  cr_qualityScore = quality\<rparr>
                                          else Inr (results_cache s)) of
                                     Inl e \<Rightarrow> (Inl e, s\<lparr>processor := p\<rparr>)
                                   | Inr c \<Rightarrow>
                                      (let s1 = s\<lparr>processor := p, results_cache := c\<rparr>;
                                           s2 = log_audit_event (t_audit ck)
                                                  \<lparr>al_user_id = Some (user_token request),
                                                   al_action = ''process_ai_results'',
                                                   al_endpoint = ''/ai-results'',
                                                   al_timestamp = stamp ck,
                                                   al_request_id = submission_id request,
                                                   al_success = True, al_error = None,
                                                   al_metadata =
                                                     [(''qualityScore'', quality),
                                                      (''processed'', PBool (pr_processed result)),
                                                      (''txHash'', PStr (pr_txHash result)),
                                                      (''processingTime'', PInt processing_time)]\<rparr> s1
                                       in (Inr response,
                                           s2\<lparr>processor := record_success (processor s2)\<rparr>))))))))))"

text \<open>
  The whole method: the handler of the \<^verbatim>\<open>try\<close> (lines 118 to 138) records a breaker
  failure, writes the audit event and re-raises.
\<close>

definition process_results ::
  "clock \<Rightarrow> (exn + string) \<Rightarrow> request_data \<Rightarrow> state \<Rightarrow> (exn + AIResultsResponse) \<times> state" where
  "process_results ck sc d s =
     (case process_results_try ck sc d s of
        (Inr r, s') \<Rightarrow> (Inr r, s')
      | (Inl e, s') \<Rightarrow>
          let processing_time = ms_end ck - ms_start ck;
              s1 = s'\<lparr>processor := handle_circuit_breaker_failure (t_failure ck) (processor s')\<rparr>;
              s2 = log_audit_event (t_audit ck)
                     \<lparr>al_user_id = Some (case rd_userToken d of None \<Rightarrow> ''unknown'' | Some u \<Rightarrow> u),
                      al_action = ''process_ai_results'', al_endpoint = ''/ai-results'',
                      al_timestamp = stamp ck,
                      al_request_id = (case rd_submissionId d of None \<Rightarrow> ''unknown'' | Some i \<Rightarrow> i),
                      al_success = False, al_error = Some (exn_str e),
                      al_metadata = [(''processingTime'', PInt processing_time)]\<rparr> s1
          in (Inl e, s2))"

section \<open>Inputs for the identity verifier\<close>

text \<open>
  A stand-in for PyJWT that knows one expired and one valid token and rejects every other
  token as invalid, the secret store of the tests, and a request that carries at most an
  \<^verbatim>\<open>Authorization\<close> header.
\<close>

definition pyjwt_stub :: "string \<Rightarrow> string \<Rightarrow> exn + jwt_claims" where
  "pyjwt_stub token key =
     (if token = ''expired-token'' then Inl ExpiredSignatureError
      else if token = ''valid-token'' \<and> key = ''test-key''
      then Inr \<lparr>claim_userId = Some ''user123'', claim_address = Some ''0x123''\<rparr>
      else Inl InvalidTokenError)"

definition test_env :: env where
  "test_env = \<lparr>jwt_signing_key = Some ''test-key'', jwt_decode = pyjwt_stub\<rparr>"

definition request_with :: "string option \<Rightarrow> request" where
  "request_with auth =
     \<lparr>headers = (\<lambda>k. if k = ''Authorization'' then auth else None), path = ''/gemini-verify'',
      user_id = None, user_address = None\<rparr>"

section \<open>Inputs for results processing\<close>

text \<open>
  The clock readings of one invocation, a request body whose quality score is left open
  together with the request object built from it, a results cache that already holds the
  submission of that request, and a state whose breaker has just counted five failures.
\<close>

definition sample_clock :: clock where
  "sample_clock =
     \<lparr>ms_start = 1700000000000, ms_end = 1700000000120, t_breaker = 1700000000,
      t_failure = 3400000001 / 2, t_audit = 3400000001 / 2,
      stamp = ''2023-11-14T22:13:20.000Z''\<rparr>"

definition results_request :: "pyval \<Rightarrow> request_data" where
  "results_request quality =
     \<lparr>rd_submissionId = Some ''sub-1'',
      rd_verificationResults =
        Some [(''submissionId'', PStr ''sub-1''), (''qualityScore'', quality),
              (''languageDetected'', PStr ''en''), (''confidence'', PFloat (3 / 4))],
      rd_userToken = Some ''user123''\<rparr>"

definition with_cached_result :: "state \<Rightarrow> state" where
  "with_cached_result s =
     s\<lparr>results_cache := (results_cache s)\<lparr>entries := (entries (results_cache s))
          (''results_sub-1'' \<mapsto>
             \<lparr>cr_txHash = ''0xabc'', cr_timestamp = ''2023-11-14T22:00:00.000Z'',
              cr_qualityScore = PInt 85\<rparr>)\<rparr>\<rparr>"

definition parsed_request :: "pyval \<Rightarrow> AIResultsRequest" where
  "parsed_request quality =
     \<lparr>submission_id = ''sub-1'',
      verification_results =
        [(''submissionId'', PStr ''sub-1''), (''qualityScore'', quality),
         (''languageDetected'', PStr ''en''), (''confidence'', PFloat (3 / 4))],
      user_token = ''user123''\<rparr>"

definition open_breaker_state :: state where
  "open_breaker_state =
     init_state\<lparr>processor :=
       failures_at [1699999990, 1699999991, 1699999992, 1699999993, 1699999994] init_processor\<rparr>"

section \<open>Circuit breaker: the state machine\<close>

lemma failures_at_count:
  "circuit_breaker_failures (failures_at ts p) = circuit_breaker_failures p + int (length ts)"
  by (induction ts arbitrary: p) (simp_all add: handle_circuit_breaker_failure_def)

lemma failures_at_threshold:
  "circuit_breaker_threshold (failures_at ts p) = circuit_breaker_threshold p"
  by (induction ts arbitrary: p) (simp_all add: handle_circuit_breaker_failure_def)

lemma failures_at_timeout:
  "circuit_breaker_timeout (failures_at ts p) = circuit_breaker_timeout p"
  by (induction ts arbitrary: p) (simp_all add: handle_circuit_breaker_failure_def)

lemma failures_at_last:
  "ts \<noteq> [] \<Longrightarrow> last_failure_time (failures_at ts p) = last ts"
  by (induction ts arbitrary: p) (auto simp: handle_circuit_breaker_failure_def)

text \<open>
  Claim C3. Take a breaker with no failures counted and a positive threshold (the fresh
  breaker of \<^verbatim>\<open>__init__\<close> has threshold 5 and cooldown 300), and let the failures
  \<open>ts\<close> be recorded one after the other. With fewer failures than the threshold the
  breaker is closed. With exactly threshold failures it is open for every reading of the
  clock that is not more than the cooldown past the last failure. A single recorded
  success leaves the count at 0 and the breaker closed. After threshold failures and a
  wait that strictly exceeds the cooldown, the evaluation answers closed and, as its side
  effect, sets the failure count to zero.
\<close>

theorem circuit_breaker_state_machine:
  assumes fresh: "circuit_breaker_failures p0 = 0"
    and thr: "0 < circuit_breaker_threshold p0"
  shows "(int (length ts) = circuit_breaker_threshold p0
            \<and> now - last ts \<le> circuit_breaker_timeout p0
            \<longrightarrow> is_circuit_breaker_open now (failures_at ts p0) = (True, failures_at ts p0))
       \<and> (int (length ts) < circuit_breaker_threshold p0
            \<longrightarrow> is_circuit_breaker_open now (failures_at ts p0) = (False, failures_at ts p0))
       \<and> circuit_breaker_failures (record_success (failures_at ts p0)) = 0
       \<and> is_circuit_breaker_open now (record_success (failures_at ts p0))
            = (False, record_success (failures_at ts p0))
       \<and> (int (length ts) = circuit_breaker_threshold p0 \<and> circuit_breaker_timeout p0 < wait
            \<longrightarrow> is_circuit_breaker_open (last ts + wait) (failures_at ts p0)
                 = (False, (failures_at ts p0)\<lparr>circuit_breaker_failures := 0\<rparr>))"
proof -
  have ne: "int (length ts) = circuit_breaker_threshold p0 \<Longrightarrow> ts \<noteq> []"
    using thr by auto
  show ?thesis
    using fresh thr ne
    by (auto simp: is_circuit_breaker_open_def record_success_def failures_at_count
        failures_at_threshold failures_at_timeout failures_at_last)
qed

theorem circuit_breaker_state_machine_witness:
  "circuit_breaker_failures init_processor = 0
   \<and> 0 < circuit_breaker_threshold init_processor
   \<and> int (length [100, 101, 102, 103, 104 :: real]) = circuit_breaker_threshold init_processor
   \<and> (104 :: real) - last [100, 101, 102, 103, 104] \<le> circuit_breaker_timeout init_processor
   \<and> circuit_breaker_timeout init_processor < (301 :: real)
   \<and> int (length [100 :: real]) < circuit_breaker_threshold init_processor
   \<and> is_circuit_breaker_open 104 (failures_at [100, 101, 102, 103, 104] init_processor)
        = (True, failures_at [100, 101, 102, 103, 104] init_processor)
   \<and> is_circuit_breaker_open (last [100, 101, 102, 103, 104] + 301)
          (failures_at [100, 101, 102, 103, 104] init_processor)
        = (False, (failures_at [100, 101, 102, 103, 104] init_processor)
                     \<lparr>circuit_breaker_failures := 0\<rparr>)
   \<and> is_circuit_breaker_open 104 (failures_at [100] init_processor)
        = (False, failures_at [100] init_processor)"
  using circuit_breaker_state_machine [of init_processor "[100, 101, 102, 103, 104]" 104 301]
    circuit_breaker_state_machine [of init_processor "[100]" 104 301]
  by (simp add: init_processor_def)

section \<open>Rate limiter: the decision\<close>

lemma RATE_LIMITS_cases:
  "RATE_LIMITS service = Some config \<Longrightarrow>
     (service = ''GEMINI'' \<and> config = \<lparr>REQUESTS_PER_MINUTE = 60, REQUESTS_PER_HOUR = 1000, COST_LIMIT_PER_DAY = 100\<rparr>)
   \<or> (service = ''TRANSLATE'' \<and> config = \<lparr>REQUESTS_PER_MINUTE = 100, REQUESTS_PER_HOUR = 2000, COST_LIMIT_PER_DAY = 50\<rparr>)
   \<or> (service = ''SPEECH'' \<and> config = \<lparr>REQUESTS_PER_MINUTE = 30, REQUESTS_PER_HOUR = 500, COST_LIMIT_PER_DAY = 75\<rparr>)"
  by (auto simp: RATE_LIMITS_def split: if_splits)

lemma limits_positive:
  "RATE_LIMITS service = Some config \<Longrightarrow>
     1 \<le> REQUESTS_PER_MINUTE config \<and> 1 \<le> REQUESTS_PER_HOUR config"
  by (drule RATE_LIMITS_cases) auto

lemma str_nat_nonempty: "str_nat n \<noteq> []"
  by (subst str_nat.simps) simp

lemma digit_not_h: "k < 10 \<Longrightarrow> char_of (48 + k :: nat) \<noteq> CHR ''h''"
proof
  assume k: "k < 10" and eq: "char_of (48 + k) = CHR ''h''"
  from eq have "of_char (char_of (48 + k) :: char) = (of_char CHR ''h'' :: nat)" by simp
  then have "(48 + k) mod 256 = 104" by (simp add: of_char_of)
  with k show False by simp
qed

lemma hd_str_nat: "hd (str_nat n) \<noteq> CHR ''h''"
proof (induction n rule: str_nat.induct)
  case (1 n)
  show ?case
  proof (cases "n < 10")
    case True
    then show ?thesis by (subst str_nat.simps) (simp add: digit_not_h)
  next
    case False
    then have "hd (str_nat n) = hd (str_nat (n div 10))"
      by (subst str_nat.simps) (simp add: str_nat_nonempty)
    then show ?thesis using 1 False by simp
  qed
qed

lemma hd_str_int: "str_int i \<noteq> [] \<and> hd (str_int i) \<noteq> CHR ''h''"
  by (simp add: str_int_def str_nat_nonempty hd_str_nat)

lemma keys_distinct: "minute_key uid service w \<noteq> hour_key uid service h"
proof
  assume "minute_key uid service w = hour_key uid service h"
  then have "str_int w = ''hourly:'' @ str_int h"
    by (simp add: minute_key_def hour_key_def)
  then have "hd (str_int w) = CHR ''h''" by simp
  then show False using hd_str_int by blast
qed


lemma rate_limit_check_step:
  assumes cfg: "RATE_LIMITS service = Some config" and h: "healthy (rate_limit_cache s)"
  shows "rate_limit_check service uid now req s =
     (if at_limit (entries (rate_limit_cache s) (minute_key uid service ((now div 60) * 60)))
           (REQUESTS_PER_MINUTE config)
      then (Inr (Some ([(''error'', PStr ''Rate limit exceeded''),
                        (''retryAfter'', PInt (60 - (now - (now div 60) * 60)))], 429)), s)
      else if at_limit (entries (rate_limit_cache s) (hour_key uid service ((now div 3600) * 3600)))
                (REQUESTS_PER_HOUR config)
      then (Inr (Some ([(''error'', PStr ''Hourly rate limit exceeded''),
                        (''retryAfter'', PInt (3600 - (now - (now div 3600) * 3600)))], 429)), s)
      else (Inr None,
            s\<lparr>rate_limit_cache := (rate_limit_cache s)\<lparr>entries :=
               (entries (rate_limit_cache s))
                 (minute_key uid service ((now div 60) * 60) \<mapsto>
                    \<lparr>rl_user_id = uid, rl_endpoint = path req,
                     rl_request_count =
                       window_count s (minute_key uid service ((now div 60) * 60)) + 1,
                     rl_window_start = (now div 60) * 60,
                     rl_limit = REQUESTS_PER_MINUTE config\<rparr>,
                  hour_key uid service ((now div 3600) * 3600) \<mapsto>
                    \<lparr>rl_user_id = uid, rl_endpoint = path req,
                     rl_request_count =
                       window_count s (hour_key uid service ((now div 3600) * 3600)) + 1,
                     rl_window_start = (now div 3600) * 3600,
                     rl_limit = REQUESTS_PER_HOUR config\<rparr>)\<rparr>\<rparr>))"
  using cfg h
  by (auto simp: rate_limit_check_def cache_get_def cache_set_def healthy_def Let_def
      next_count_def window_count_def split: option.splits)

lemma rate_limiter_verified:
  assumes "user_id req = Some uid" and "uid \<noteq> []"
  shows "rate_limiter service f t req s =
     (case rate_limit_check service uid (py_int t) req s of
        (Inl (KeyError k), s') \<Rightarrow> (([(''error'', PStr ''Service configuration error'')], 500), s')
      | (Inl e, s') \<Rightarrow> (([(''error'', PStr ''Rate limiting service unavailable'')], 500), s')
      | (Inr (Some r), s') \<Rightarrow> (r, s')
      | (Inr None, s') \<Rightarrow>
          (case f req s' of
             (Inr r, s'') \<Rightarrow> (r, s'')
           | (Inl (KeyError k), s'') \<Rightarrow> (([(''error'', PStr ''Service configuration error'')], 500), s'')
           | (Inl e, s'') \<Rightarrow>
               (([(''error'', PStr ''Rate limiting service unavailable'')], 500), s'')))"
  using assms
  by (auto simp: rate_limiter_def rate_limiter_try_def split: prod.splits sum.splits option.splits exn.splits)


lemma at_limit_count:
  "at_limit (entries (rate_limit_cache s) k) bound
     = (entries (rate_limit_cache s) k \<noteq> None \<and> bound \<le> window_count s k)"
  by (auto simp: at_limit_def window_count_def split: option.splits)

lemma rate_limiter_cache_effect:
  assumes uid: "user_id req = Some uid" "uid \<noteq> []"
    and frame: "\<forall>r s0. rate_limit_cache (snd (f r s0)) = rate_limit_cache s0"
  shows "rate_limit_cache (snd (rate_limiter service f t req s))
       = rate_limit_cache (snd (rate_limit_check service uid (py_int t) req s))"
proof -
  obtain d s1 where chk: "rate_limit_check service uid (py_int t) req s = (d, s1)"
    by (cases "rate_limit_check service uid (py_int t) req s")
  show ?thesis
  proof (cases "d = Inr None")
    case True
    obtain x s2 where fx: "f req s1 = (x, s2)" by (cases "f req s1")
    have "rate_limit_cache s2 = rate_limit_cache s1"
      using frame [rule_format, of req s1] fx by simp
    then show ?thesis
      unfolding rate_limiter_verified [OF uid] chk using True fx
      by (auto split: sum.splits exn.splits)
  next
    case False
    then show ?thesis
      unfolding rate_limiter_verified [OF uid] chk
      by (auto split: sum.splits exn.splits option.splits)
  qed
qed

lemma limiter_step:
  assumes cfg: "RATE_LIMITS service = Some config"
    and h: "healthy (rate_limit_cache s)"
    and uid: "user_id req = Some uid" "uid \<noteq> []"
    and frame: "\<forall>r s0. rate_limit_cache (snd (f r s0)) = rate_limit_cache s0"
    and w: "(py_int t div 60) * 60 = w"
  shows "healthy (rate_limit_cache (snd (rate_limiter service f t req s)))"
    and "falls_through service t req s \<Longrightarrow>
           window_count (snd (rate_limiter service f t req s)) (minute_key uid service w)
             = window_count s (minute_key uid service w) + 1
         \<and> entries (rate_limit_cache (snd (rate_limiter service f t req s)))
              (minute_key uid service w) \<noteq> None
         \<and> window_count s (minute_key uid service w) < REQUESTS_PER_MINUTE config"
    and "\<not> falls_through service t req s \<Longrightarrow>
           rate_limit_cache (snd (rate_limiter service f t req s)) = rate_limit_cache s"
proof -
  note eff = rate_limiter_cache_effect [OF uid frame, of service t s]
  note step = rate_limit_check_step [OF cfg h, of uid "py_int t" req]
  have pos: "1 \<le> REQUESTS_PER_MINUTE config" using limits_positive [OF cfg] by simp
  show "healthy (rate_limit_cache (snd (rate_limiter service f t req s)))"
    unfolding eff step using h by (simp add: healthy_def)
  show "window_count (snd (rate_limiter service f t req s)) (minute_key uid service w)
             = window_count s (minute_key uid service w) + 1
         \<and> entries (rate_limit_cache (snd (rate_limiter service f t req s)))
              (minute_key uid service w) \<noteq> None
         \<and> window_count s (minute_key uid service w) < REQUESTS_PER_MINUTE config"
    if ft: "falls_through service t req s"
  proof -
    from ft have d: "fst (rate_limit_check service uid (py_int t) req s) = Inr None"
      using uid by (simp add: falls_through_def)
    then have na: "\<not> at_limit (entries (rate_limit_cache s) (minute_key uid service w))
                      (REQUESTS_PER_MINUTE config)"
      unfolding step using w by (auto split: if_splits)
    have lt: "window_count s (minute_key uid service w) < REQUESTS_PER_MINUTE config"
      using na pos by (auto simp: at_limit_def window_count_def split: option.splits)
    have st: "rate_limit_cache (snd (rate_limiter service f t req s))
        = (rate_limit_cache s)\<lparr>entries :=
               (entries (rate_limit_cache s))
                 (minute_key uid service ((py_int t div 60) * 60) \<mapsto>
                    \<lparr>rl_user_id = uid, rl_endpoint = path req,
                     rl_request_count =
                       window_count s (minute_key uid service ((py_int t div 60) * 60)) + 1,
                     rl_window_start = (py_int t div 60) * 60,
                     rl_limit = REQUESTS_PER_MINUTE config\<rparr>,
                  hour_key uid service ((py_int t div 3600) * 3600) \<mapsto>
                    \<lparr>rl_user_id = uid, rl_endpoint = path req,
                     rl_request_count =
                       window_count s (hour_key uid service ((py_int t div 3600) * 3600)) + 1,
                     rl_window_start = (py_int t div 3600) * 3600,
                     rl_limit = REQUESTS_PER_HOUR config\<rparr>)\<rparr>"
      unfolding eff using d unfolding step by (auto split: if_splits)
    show ?thesis
      using lt w keys_distinct [of uid service w "(py_int t div 3600) * 3600"]
      by (simp add: st window_count_def)
  qed
  show "rate_limit_cache (snd (rate_limiter service f t req s)) = rate_limit_cache s"
    if nft: "\<not> falls_through service t req s"
  proof -
    from nft have d: "fst (rate_limit_check service uid (py_int t) req s) \<noteq> Inr None"
      using uid by (simp add: falls_through_def)
    then show ?thesis unfolding eff using d unfolding step by (auto split: if_splits)
  qed
qed

lemma run_limiter_inv:
  assumes cfg: "RATE_LIMITS service = Some config"
    and uid: "user_id req = Some uid" "uid \<noteq> []"
    and frame: "\<forall>r s0. rate_limit_cache (snd (f r s0)) = rate_limit_cache s0"
  shows "healthy (rate_limit_cache s) \<Longrightarrow> \<forall>t \<in> set ts. (py_int t div 60) * 60 = w \<Longrightarrow>
     run_limiter service f req ts s = (n, s') \<Longrightarrow>
       healthy (rate_limit_cache s')
     \<and> window_count s' (minute_key uid service w) = window_count s (minute_key uid service w) + int n
     \<and> (0 < n \<or> entries (rate_limit_cache s) (minute_key uid service w) \<noteq> None
          \<longrightarrow> entries (rate_limit_cache s') (minute_key uid service w) \<noteq> None)
     \<and> (window_count s (minute_key uid service w) \<le> REQUESTS_PER_MINUTE config
          \<longrightarrow> window_count s' (minute_key uid service w) \<le> REQUESTS_PER_MINUTE config)"
proof (induction ts arbitrary: s n)
  case Nil
  then show ?case by simp
next
  case (Cons t ts)
  let ?s1 = "snd (rate_limiter service f t req s)"
  let ?k = "minute_key uid service w"
  have w: "(py_int t div 60) * 60 = w" using Cons.prems(2) by simp
  note st = limiter_step [OF cfg Cons.prems(1) uid frame w]
  obtain m where rest: "run_limiter service f req ts ?s1 = (m, s')"
    and n: "n = (if falls_through service t req s then Suc m else m)"
    using Cons.prems(3) by (auto split: prod.splits)
  have ih: "healthy (rate_limit_cache s')
     \<and> window_count s' ?k = window_count ?s1 ?k + int m
     \<and> (0 < m \<or> entries (rate_limit_cache ?s1) ?k \<noteq> None
          \<longrightarrow> entries (rate_limit_cache s') ?k \<noteq> None)
     \<and> (window_count ?s1 ?k \<le> REQUESTS_PER_MINUTE config
          \<longrightarrow> window_count s' ?k \<le> REQUESTS_PER_MINUTE config)"
  proof -
    have "\<forall>t \<in> set ts. (py_int t div 60) * 60 = w" using Cons.prems(2) by simp
    from Cons.IH [OF st(1) this rest] show ?thesis .
  qed
  show ?case
  proof (cases "falls_through service t req s")
    case True
    note a = st(2) [OF True]
    have keep: "entries (rate_limit_cache s') ?k \<noteq> None"
      using ih a by blast
    show ?thesis using True n ih a keep by auto
  next
    case False
    have "window_count ?s1 ?k = window_count s ?k"
      and "entries (rate_limit_cache ?s1) ?k = entries (rate_limit_cache s) ?k"
      using st(3) [OF False] by (simp_all add: window_count_def)
    then show ?thesis using False n ih by auto
  qed
qed

text \<open>
  Claim C1. For a request that carries a verified user (a non-empty \<open>user_id\<close>), a service
  with configured limits and a rate-limit store that answers, one call of the rate limiter
  does the following, in this order. If the entry of the current minute window exists and
  its count has reached the per-minute limit, the call returns status 429 with the reason
  \<open>Rate limit exceeded\<close> and the seconds left in the window, and the state is returned as
  it was. Otherwise, if the entry of the current hour window has reached the per-hour
  limit, the call returns 429 with \<open>Hourly rate limit exceeded\<close> and the state as it was.
  Otherwise both counters go up by one (an absent entry counts as 0, so it is created at
  1), nothing else in the state is touched, and the wrapped function runs on that state.
  In particular: when the requests of one user to one service are issued one after the
  other in a minute window that had no entry, and the wrapped function leaves the
  rate-limit store alone, the number of requests that fall through never exceeds the
  per-minute limit, the stored count is that number, and once it equals the limit every
  further request of that window is rejected with \<open>Rate limit exceeded\<close>.
\<close>

theorem rate_limiter_decision_logic:
  assumes cfg: "RATE_LIMITS service = Some config"
    and h: "healthy (rate_limit_cache s)"
    and uid: "user_id req = Some uid" "uid \<noteq> []"
  shows
   "(at_limit (entries (rate_limit_cache s) (minute_key uid service ((py_int t div 60) * 60)))
        (REQUESTS_PER_MINUTE config)
      \<longrightarrow> rate_limiter service f t req s
           = (([(''error'', PStr ''Rate limit exceeded''),
                (''retryAfter'', PInt (60 - (py_int t - (py_int t div 60) * 60)))], 429), s))
  \<and> (\<not> at_limit (entries (rate_limit_cache s) (minute_key uid service ((py_int t div 60) * 60)))
          (REQUESTS_PER_MINUTE config)
     \<and> at_limit (entries (rate_limit_cache s) (hour_key uid service ((py_int t div 3600) * 3600)))
          (REQUESTS_PER_HOUR config)
      \<longrightarrow> rate_limiter service f t req s
           = (([(''error'', PStr ''Hourly rate limit exceeded''),
                (''retryAfter'', PInt (3600 - (py_int t - (py_int t div 3600) * 3600)))], 429), s))
  \<and> (\<not> at_limit (entries (rate_limit_cache s) (minute_key uid service ((py_int t div 60) * 60)))
          (REQUESTS_PER_MINUTE config)
     \<and> \<not> at_limit (entries (rate_limit_cache s) (hour_key uid service ((py_int t div 3600) * 3600)))
          (REQUESTS_PER_HOUR config)
      \<longrightarrow> falls_through service t req s
        \<and> rate_limiter service f t req s
           = (case f req (snd (rate_limit_check service uid (py_int t) req s)) of
                (Inr r, s'') \<Rightarrow> (r, s'')
              | (Inl (KeyError k), s'') \<Rightarrow>
                  (([(''error'', PStr ''Service configuration error'')], 500), s'')
              | (Inl e, s'') \<Rightarrow>
                  (([(''error'', PStr ''Rate limiting service unavailable'')], 500), s''))
        \<and> window_count (snd (rate_limit_check service uid (py_int t) req s))
              (minute_key uid service ((py_int t div 60) * 60))
            = window_count s (minute_key uid service ((py_int t div 60) * 60)) + 1
        \<and> window_count (snd (rate_limit_check service uid (py_int t) req s))
              (hour_key uid service ((py_int t div 3600) * 3600))
            = window_count s (hour_key uid service ((py_int t div 3600) * 3600)) + 1
        \<and> entries (rate_limit_cache (snd (rate_limit_check service uid (py_int t) req s)))
              (minute_key uid service ((py_int t div 60) * 60)) \<noteq> None
        \<and> entries (rate_limit_cache (snd (rate_limit_check service uid (py_int t) req s)))
              (hour_key uid service ((py_int t div 3600) * 3600)) \<noteq> None
        \<and> (\<forall>k. k \<noteq> minute_key uid service ((py_int t div 60) * 60)
                \<and> k \<noteq> hour_key uid service ((py_int t div 3600) * 3600)
              \<longrightarrow> entries (rate_limit_cache (snd (rate_limit_check service uid (py_int t) req s))) k
                  = entries (rate_limit_cache s) k)
        \<and> (snd (rate_limit_check service uid (py_int t) req s))
              \<lparr>rate_limit_cache := rate_limit_cache s\<rparr> = s)
  \<and> ((\<forall>r s0. rate_limit_cache (snd (f r s0)) = rate_limit_cache s0)
     \<and> entries (rate_limit_cache s) (minute_key uid service w) = None
     \<and> (\<forall>t' \<in> set ts. (py_int t' div 60) * 60 = w)
     \<and> run_limiter service f req ts s = (n, s')
      \<longrightarrow> int n \<le> REQUESTS_PER_MINUTE config
        \<and> window_count s' (minute_key uid service w) = int n
        \<and> (int n = REQUESTS_PER_MINUTE config \<and> (py_int t div 60) * 60 = w
            \<longrightarrow> rate_limiter service f t req s'
                 = (([(''error'', PStr ''Rate limit exceeded''),
                      (''retryAfter'', PInt (60 - (py_int t - (py_int t div 60) * 60)))], 429),
                    s')))"
proof -
  note step = rate_limit_check_step [OF cfg h, of uid "py_int t" req]
  note lim = rate_limiter_verified [OF uid, of service f t s]
  have p1: "at_limit (entries (rate_limit_cache s) (minute_key uid service ((py_int t div 60) * 60)))
        (REQUESTS_PER_MINUTE config)
      \<Longrightarrow> rate_limiter service f t req s
           = (([(''error'', PStr ''Rate limit exceeded''),
                (''retryAfter'', PInt (60 - (py_int t - (py_int t div 60) * 60)))], 429), s)"
    unfolding lim step by simp
  have p2: "\<not> at_limit (entries (rate_limit_cache s) (minute_key uid service ((py_int t div 60) * 60)))
          (REQUESTS_PER_MINUTE config)
     \<Longrightarrow> at_limit (entries (rate_limit_cache s) (hour_key uid service ((py_int t div 3600) * 3600)))
          (REQUESTS_PER_HOUR config)
      \<Longrightarrow> rate_limiter service f t req s
           = (([(''error'', PStr ''Hourly rate limit exceeded''),
                (''retryAfter'', PInt (3600 - (py_int t - (py_int t div 3600) * 3600)))], 429), s)"
    unfolding lim step by simp
  have p3: "falls_through service t req s
        \<and> rate_limiter service f t req s
           = (case f req (snd (rate_limit_check service uid (py_int t) req s)) of
                (Inr r, s'') \<Rightarrow> (r, s'')
              | (Inl (KeyError k), s'') \<Rightarrow>
                  (([(''error'', PStr ''Service configuration error'')], 500), s'')
              | (Inl e, s'') \<Rightarrow>
                  (([(''error'', PStr ''Rate limiting service unavailable'')], 500), s''))
        \<and> window_count (snd (rate_limit_check service uid (py_int t) req s))
              (minute_key uid service ((py_int t div 60) * 60))
            = window_count s (minute_key uid service ((py_int t div 60) * 60)) + 1
        \<and> window_count (snd (rate_limit_check service uid (py_int t) req s))
              (hour_key uid service ((py_int t div 3600) * 3600))
            = window_count s (hour_key uid service ((py_int t div 3600) * 3600)) + 1
        \<and> entries (rate_limit_cache (snd (rate_limit_check service uid (py_int t) req s)))
              (minute_key uid service ((py_int t div 60) * 60)) \<noteq> None
        \<and> entries (rate_limit_cache (snd (rate_limit_check service uid (py_int t) req s)))
              (hour_key uid service ((py_int t div 3600) * 3600)) \<noteq> None
        \<and> (\<forall>k. k \<noteq> minute_key uid service ((py_int t div 60) * 60)
                \<and> k \<noteq> hour_key uid service ((py_int t div 3600) * 3600)
              \<longrightarrow> entries (rate_limit_cache (snd (rate_limit_check service uid (py_int t) req s))) k
                  = entries (rate_limit_cache s) k)
        \<and> (snd (rate_limit_check service uid (py_int t) req s))
              \<lparr>rate_limit_cache := rate_limit_cache s\<rparr> = s"
    if a: "\<not> at_limit (entries (rate_limit_cache s) (minute_key uid service ((py_int t div 60) * 60)))
          (REQUESTS_PER_MINUTE config)"
      and b: "\<not> at_limit (entries (rate_limit_cache s) (hour_key uid service ((py_int t div 3600) * 3600)))
          (REQUESTS_PER_HOUR config)"
  proof -
    have ft: "falls_through service t req s"
      using uid a b by (simp add: falls_through_def step)
    have r: "rate_limiter service f t req s
           = (case f req (snd (rate_limit_check service uid (py_int t) req s)) of
                (Inr r, s'') \<Rightarrow> (r, s'')
              | (Inl (KeyError k), s'') \<Rightarrow>
                  (([(''error'', PStr ''Service configuration error'')], 500), s'')
              | (Inl e, s'') \<Rightarrow>
                  (([(''error'', PStr ''Rate limiting service unavailable'')], 500), s''))"
      unfolding lim using a b by (simp add: step)
    have rest: "window_count (snd (rate_limit_check service uid (py_int t) req s))
              (minute_key uid service ((py_int t div 60) * 60))
            = window_count s (minute_key uid service ((py_int t div 60) * 60)) + 1"
      "window_count (snd (rate_limit_check service uid (py_int t) req s))
              (hour_key uid service ((py_int t div 3600) * 3600))
            = window_count s (hour_key uid service ((py_int t div 3600) * 3600)) + 1"
      "entries (rate_limit_cache (snd (rate_limit_check service uid (py_int t) req s)))
              (minute_key uid service ((py_int t div 60) * 60)) \<noteq> None"
      "entries (rate_limit_cache (snd (rate_limit_check service uid (py_int t) req s)))
              (hour_key uid service ((py_int t div 3600) * 3600)) \<noteq> None"
      "\<forall>k. k \<noteq> minute_key uid service ((py_int t div 60) * 60)
                \<and> k \<noteq> hour_key uid service ((py_int t div 3600) * 3600)
              \<longrightarrow> entries (rate_limit_cache (snd (rate_limit_check service uid (py_int t) req s))) k
                  = entries (rate_limit_cache s) k"
      "(snd (rate_limit_check service uid (py_int t) req s))
              \<lparr>rate_limit_cache := rate_limit_cache s\<rparr> = s"
      using a b keys_distinct [of uid service "(py_int t div 60) * 60" "(py_int t div 3600) * 3600"]
      by (simp_all add: step window_count_def)
    show ?thesis using ft r rest by blast
  qed
  have p4: "int n \<le> REQUESTS_PER_MINUTE config
        \<and> window_count s' (minute_key uid service w) = int n
        \<and> (int n = REQUESTS_PER_MINUTE config \<and> (py_int t div 60) * 60 = w
            \<longrightarrow> rate_limiter service f t req s'
                 = (([(''error'', PStr ''Rate limit exceeded''),
                      (''retryAfter'', PInt (60 - (py_int t - (py_int t div 60) * 60)))], 429),
                    s'))"
    if frame: "\<forall>r s0. rate_limit_cache (snd (f r s0)) = rate_limit_cache s0"
      and fresh: "entries (rate_limit_cache s) (minute_key uid service w) = None"
      and win: "\<forall>t' \<in> set ts. (py_int t' div 60) * 60 = w"
      and run: "run_limiter service f req ts s = (n, s')"
  proof -
    note inv = run_limiter_inv [OF cfg uid frame h win run]
    have z: "window_count s (minute_key uid service w) = 0"
      using fresh by (simp add: window_count_def)
    have pos: "1 \<le> REQUESTS_PER_MINUTE config" using limits_positive [OF cfg] by simp
    have le: "int n \<le> REQUESTS_PER_MINUTE config" using inv z pos by simp
    have cnt: "window_count s' (minute_key uid service w) = int n" using inv z by simp
    have rej: "rate_limiter service f t req s'
                 = (([(''error'', PStr ''Rate limit exceeded''),
                      (''retryAfter'', PInt (60 - (py_int t - (py_int t div 60) * 60)))], 429),
                    s')"
      if full: "int n = REQUESTS_PER_MINUTE config" and tw: "(py_int t div 60) * 60 = w"
    proof -
      have "0 < n" using full pos by simp
      then have ex: "entries (rate_limit_cache s') (minute_key uid service w) \<noteq> None"
        using inv by simp
      have hs: "healthy (rate_limit_cache s')" using inv by simp
      have "at_limit (entries (rate_limit_cache s') (minute_key uid service ((py_int t div 60) * 60)))
              (REQUESTS_PER_MINUTE config)"
        using ex cnt full tw by (simp add: at_limit_count)
      then show ?thesis
        unfolding rate_limiter_verified [OF uid] rate_limit_check_step [OF cfg hs] by simp
    qed
    show ?thesis using le cnt rej by blast
  qed
  show ?thesis using p1 p2 p3 p4 by blast
qed

lemma speech_run_admits_thirty: "fst speech_run = 30"
  by (simp add: speech_run_def speech_times_def rate_limiter_def rate_limiter_try_def
      rate_limit_check_def falls_through_def cache_get_def cache_set_def RATE_LIMITS_def
      minute_key_def hour_key_def str_int_def str_nat.simps py_int_def at_limit_def
      next_count_def init_state_def empty_cache_def Let_def ok_handler_def verified_request_def)

theorem rate_limiter_decision_logic_witness:
  "RATE_LIMITS ''SPEECH''
     = Some \<lparr>REQUESTS_PER_MINUTE = 30, REQUESTS_PER_HOUR = 500, COST_LIMIT_PER_DAY = 75\<rparr>
   \<and> healthy (rate_limit_cache init_state)
   \<and> user_id verified_request = Some ''user123''
   \<and> entries (rate_limit_cache init_state) (minute_key ''user123'' ''SPEECH'' 1200) = None
   \<and> list_all (\<lambda>t'. (py_int t' div 60) * 60 = 1200) speech_times
   \<and> fst speech_run = 30
   \<and> rate_limiter ''SPEECH'' ok_handler (12299 / 10) verified_request (snd speech_run)
      = (([(''error'', PStr ''Rate limit exceeded''), (''retryAfter'', PInt 31)], 429),
         snd speech_run)
   \<and> falls_through ''SPEECH'' (12299 / 10) verified_request init_state
   \<and> window_count (snd (rate_limit_check ''SPEECH'' ''user123'' 1229 verified_request init_state))
        (minute_key ''user123'' ''SPEECH'' 1200) = 1
   \<and> rate_limiter ''SPEECH'' ok_handler (12299 / 10) verified_request
        (with_rate_entry (minute_key ''user123'' ''SPEECH'' 1200) 30 init_state)
      = (([(''error'', PStr ''Rate limit exceeded''), (''retryAfter'', PInt 31)], 429),
         with_rate_entry (minute_key ''user123'' ''SPEECH'' 1200) 30 init_state)
   \<and> rate_limiter ''SPEECH'' ok_handler (12299 / 10) verified_request
        (with_rate_entry (hour_key ''user123'' ''SPEECH'' 0) 500 init_state)
      = (([(''error'', PStr ''Hourly rate limit exceeded''), (''retryAfter'', PInt 2371)], 429),
         with_rate_entry (hour_key ''user123'' ''SPEECH'' 0) 500 init_state)"
proof -
  let ?t = "12299 / 10 :: real"
  let ?cfg = "\<lparr>REQUESTS_PER_MINUTE = 30, REQUESTS_PER_HOUR = 500, COST_LIMIT_PER_DAY = 75\<rparr>"
  let ?mk = "minute_key ''user123'' ''SPEECH'' 1200"
  let ?hk = "hour_key ''user123'' ''SPEECH'' 0"
  have cfg: "RATE_LIMITS ''SPEECH'' = Some ?cfg" by (simp add: RATE_LIMITS_def)
  have h: "healthy (rate_limit_cache init_state)"
    by (simp add: healthy_def init_state_def empty_cache_def)
  have hm: "healthy (rate_limit_cache (with_rate_entry ?mk 30 init_state))"
    and hh: "healthy (rate_limit_cache (with_rate_entry ?hk 500 init_state))"
    by (simp_all add: healthy_def init_state_def empty_cache_def with_rate_entry_def)
  have uid: "user_id verified_request = Some ''user123''" "''user123'' \<noteq> []"
    by (simp_all add: verified_request_def)
  have frame: "\<forall>r s0. rate_limit_cache (snd (ok_handler r s0)) = rate_limit_cache s0"
    by (simp add: ok_handler_def)
  have fresh: "entries (rate_limit_cache init_state) ?mk = None"
    by (simp add: init_state_def empty_cache_def)
  have win: "\<forall>t' \<in> set speech_times. (py_int t' div 60) * 60 = 1200"
    by (simp add: speech_times_def py_int_def)
  have winl: "list_all (\<lambda>t'. (py_int t' div 60) * 60 = 1200) speech_times"
    using win by (simp add: list_all_iff)
  have n30: "fst speech_run = 30" by (rule speech_run_admits_thirty)
  have "speech_run = (30, snd speech_run)" using n30 by (metis prod.collapse)
  then have run: "run_limiter ''SPEECH'' ok_handler verified_request speech_times init_state
      = (30, snd speech_run)"
    by (simp only: speech_run_def)
  have now: "py_int ?t = 1229" by (simp add: py_int_def)
  have w60: "(py_int ?t div 60) * 60 = 1200" and w3600: "(py_int ?t div 3600) * 3600 = 0"
    by (simp_all add: now)
  have ra: "60 - (py_int ?t - (py_int ?t div 60) * 60) = 31"
    and rb: "3600 - (py_int ?t - (py_int ?t div 3600) * 3600) = 2371"
    by (simp_all add: now)
  have lim0: "\<not> at_limit (entries (rate_limit_cache init_state)
                  (minute_key ''user123'' ''SPEECH'' ((py_int ?t div 60) * 60)))
                (REQUESTS_PER_MINUTE ?cfg)
     \<and> \<not> at_limit (entries (rate_limit_cache init_state)
                  (hour_key ''user123'' ''SPEECH'' ((py_int ?t div 3600) * 3600)))
                (REQUESTS_PER_HOUR ?cfg)"
    by (simp add: at_limit_def init_state_def empty_cache_def)
  have atm: "at_limit (entries (rate_limit_cache (with_rate_entry ?mk 30 init_state))
                  (minute_key ''user123'' ''SPEECH'' ((py_int ?t div 60) * 60)))
                (REQUESTS_PER_MINUTE ?cfg)"
    by (simp add: at_limit_def with_rate_entry_def w60)
  have ath: "\<not> at_limit (entries (rate_limit_cache (with_rate_entry ?hk 500 init_state))
                  (minute_key ''user123'' ''SPEECH'' ((py_int ?t div 60) * 60)))
                (REQUESTS_PER_MINUTE ?cfg)
     \<and> at_limit (entries (rate_limit_cache (with_rate_entry ?hk 500 init_state))
                  (hour_key ''user123'' ''SPEECH'' ((py_int ?t div 3600) * 3600)))
                (REQUESTS_PER_HOUR ?cfg)"
    using keys_distinct [of "''user123''" "''SPEECH''" 1200 0]
    by (simp add: at_limit_def with_rate_entry_def w60 w3600 init_state_def empty_cache_def)
  note A = rate_limiter_decision_logic [OF cfg h uid,
      of ?t ok_handler 1200 speech_times 30 "snd speech_run"]
  note B = rate_limiter_decision_logic [OF cfg hm uid, of ?t ok_handler 1200 "[]" 0 init_state]
  note C = rate_limiter_decision_logic [OF cfg hh uid, of ?t ok_handler 1200 "[]" 0 init_state]
  have hyp4: "(\<forall>r s0. rate_limit_cache (snd (ok_handler r s0)) = rate_limit_cache s0)
     \<and> entries (rate_limit_cache init_state) (minute_key ''user123'' ''SPEECH'' 1200) = None
     \<and> (\<forall>t' \<in> set speech_times. (py_int t' div 60) * 60 = 1200)
     \<and> run_limiter ''SPEECH'' ok_handler verified_request speech_times init_state
         = (30, snd speech_run)"
    using frame fresh win run by (intro conjI)
  note A4 = A [THEN conjunct2, THEN conjunct2, THEN conjunct2, THEN mp, OF hyp4]
  have full: "int 30 = REQUESTS_PER_MINUTE ?cfg \<and> (py_int ?t div 60) * 60 = 1200"
    using w60 by simp
  have a4: "rate_limiter ''SPEECH'' ok_handler ?t verified_request (snd speech_run)
      = (([(''error'', PStr ''Rate limit exceeded''), (''retryAfter'', PInt 31)], 429),
         snd speech_run)"
    using A4 [THEN conjunct2, THEN conjunct2, THEN mp, OF full] unfolding ra .
  note A3 = A [THEN conjunct2, THEN conjunct2, THEN conjunct1, THEN mp, OF lim0]
  have a3a: "falls_through ''SPEECH'' ?t verified_request init_state"
    using A3 by (rule conjunct1)
  have a3b: "window_count (snd (rate_limit_check ''SPEECH'' ''user123'' 1229 verified_request init_state))
        ?mk = 1"
    using A3 [THEN conjunct2, THEN conjunct2, THEN conjunct1] fresh
    by (simp add: now window_count_def)
  have b1: "rate_limiter ''SPEECH'' ok_handler ?t verified_request (with_rate_entry ?mk 30 init_state)
      = (([(''error'', PStr ''Rate limit exceeded''), (''retryAfter'', PInt 31)], 429),
         with_rate_entry ?mk 30 init_state)"
    using B [THEN conjunct1, THEN mp, OF atm] unfolding ra .
  have c2: "rate_limiter ''SPEECH'' ok_handler ?t verified_request (with_rate_entry ?hk 500 init_state)
      = (([(''error'', PStr ''Hourly rate limit exceeded''), (''retryAfter'', PInt 2371)], 429),
         with_rate_entry ?hk 500 init_state)"
    using C [THEN conjunct2, THEN conjunct1, THEN mp, OF ath] unfolding rb .
  show ?thesis
    by (intro conjI)
      (rule cfg, rule h, rule uid(1), rule fresh, rule winl, rule n30, rule a4, rule a3a,
       rule a3b, rule b1, rule c2)
qed

section \<open>Python floats: rounding\<close>

text \<open>
  A real that lies in the binade \<open>e\<close> of the normal range rounds to the nearest multiple of
  \<open>2 ^ (e - 52)\<close>; this evaluates \<open>round_double\<close> on concrete sums.
\<close>

lemma powr_powi: "(2::real) powr real_of_int k = 2 powi k"
  by (rule powr_real_of_int') simp_all

lemma binade_eq:
  assumes "2 powi e \<le> \<bar>r\<bar>" and "\<bar>r\<bar> < 2 powi (e + 1)"
  shows "binade r = e"
proof -
  have "0 < (2::real) powi e" by simp
  then have pos: "0 < \<bar>r\<bar>" using assms(1) by linarith
  have "(\<lfloor>log 2 \<bar>r\<bar>\<rfloor> = e) = (2 powr real_of_int e \<le> \<bar>r\<bar> \<and> \<bar>r\<bar> < 2 powr real_of_int (e + 1))"
    by (rule floor_log_eq_powr_iff [OF pos]) simp
  then show ?thesis unfolding binade_def powr_powi using assms by blast
qed

lemma round_double_normal:
  assumes "2 powi e \<le> \<bar>r\<bar>" and "\<bar>r\<bar> < 2 powi (e + 1)" and "- 1022 \<le> e"
  shows "round_double r =
     (let q = 2 powi (e - 52); m = of_int (round_half_even (r / q)) * q
      in if \<bar>m\<bar> \<ge> 2 powi 1024 then (if r > 0 then PosInf else NegInf) else Finite m)"
proof -
  have "0 < (2::real) powi e" by simp
  then have "0 < \<bar>r\<bar>" using assms(1) by linarith
  then have nz: "r \<noteq> 0" by auto
  have u: "ulp_exponent r = e - 52"
    using assms(3) by (simp add: ulp_exponent_def binade_eq [OF assms(1,2)])
  show ?thesis by (simp add: round_double_def nz u)
qed

lemma round_double_30: "round_double 30 = Finite 30"
  by (subst round_double_normal [where e = 4]) (simp_all add: round_half_even_def Let_def)

lemma round_double_50: "round_double 50 = Finite 50"
  by (subst round_double_normal [where e = 5]) (simp_all add: round_half_even_def Let_def)

lemma round_double_51: "round_double 51 = Finite 51"
  by (subst round_double_normal [where e = 5]) (simp_all add: round_half_even_def Let_def)

lemma round_double_60: "round_double 60 = Finite 60"
  by (subst round_double_normal [where e = 5]) (simp_all add: round_half_even_def Let_def)

lemma round_double_5: "round_double 5 = Finite 5"
  by (subst round_double_normal [where e = 2]) (simp_all add: round_half_even_def Let_def)

lemma round_double_0_1: "round_double double_0_1 = Finite double_0_1"
  unfolding double_0_1_def
  by (subst round_double_normal [where e = "- 4"]) (simp_all add: round_half_even_def Let_def)

lemma round_double_0_11: "round_double (double_0_1 + double_0_01) = Finite double_0_11"
  unfolding double_0_1_def double_0_01_def double_0_11_def
  by (subst round_double_normal [where e = "- 4"]) (simp_all add: round_half_even_def Let_def)

lemma round_double_100: "round_double (double_0_11 + double_99_89) = Finite 100"
  unfolding double_0_11_def double_99_89_def
  by (subst round_double_normal [where e = 6]) (simp_all add: round_half_even_def Let_def)

lemma doubles_below_cap:
  "\<not> 100 < double_0_1" "\<not> 100 < double_0_11"
  by (simp_all add: double_0_1_def double_0_11_def)

section \<open>Cost governor: check and reserve\<close>

lemma check_cost_limits_step:
  assumes "RATE_LIMITS service = Some config" and "healthy (cost_cache s)"
  shows "check_cost_limits today t uid service c s =
     (if float_gt (float_add (ledger_cost s (cost_key_of uid service today)) c)
           (Finite (COST_LIMIT_PER_DAY config))
      then (False, s)
      else (True, s\<lparr>cost_cache := (cost_cache s)\<lparr>entries := (entries (cost_cache s))
              (cost_key_of uid service today \<mapsto>
                 \<lparr>cm_user_id = uid, cm_service = service,
                  cm_cost = float_add (ledger_cost s (cost_key_of uid service today)) c,
                  cm_request_count = ledger_count s (cost_key_of uid service today) + 1,
                  cm_timestamp = py_int t\<rparr>)\<rparr>\<rparr>))"
  using assms
  by (auto simp: check_cost_limits_def check_cost_limits_try_def cache_get_def cache_set_def
      healthy_def ledger_cost_def ledger_count_def Let_def split: option.splits)

lemma check_cost_limits_effect:
  assumes "RATE_LIMITS service = Some config" and "healthy (cost_cache s)"
    and "check_cost_limits today t uid service c s = (b, s')"
  shows "healthy (cost_cache s')"
    and "b = (\<not> float_gt (float_add (ledger_cost s (cost_key_of uid service today)) c)
                   (Finite (COST_LIMIT_PER_DAY config)))"
    and "\<not> b \<Longrightarrow> s' = s"
    and "b \<Longrightarrow> ledger_cost s' (cost_key_of uid service today)
                 = float_add (ledger_cost s (cost_key_of uid service today)) c"
    and "b \<Longrightarrow> ledger_count s' (cost_key_of uid service today)
                 = ledger_count s (cost_key_of uid service today) + 1"
    and "ledger_cost s' (cost_key_of uid service today)
           = (if b then float_add (ledger_cost s (cost_key_of uid service today)) c
              else ledger_cost s (cost_key_of uid service today))"
    and "ledger_count s' (cost_key_of uid service today)
           = ledger_count s (cost_key_of uid service today) + (if b then 1 else 0)"
    and "b \<Longrightarrow> entries (cost_cache s') (cost_key_of uid service today) \<noteq> None"
  using assms(3) unfolding check_cost_limits_step [OF assms(1,2)]
  using assms(2)
  by (auto simp: healthy_def ledger_cost_def ledger_count_def split: if_splits)

lemma run_costs_general:
  assumes cfg: "RATE_LIMITS service = Some config"
  shows "healthy (cost_cache s) \<Longrightarrow> run_costs today uid service reqs s = (bs, s') \<Longrightarrow>
     length bs = length reqs \<and> healthy (cost_cache s')
   \<and> ledger_cost s' (cost_key_of uid service today)
        = admitted_sum (ledger_cost s (cost_key_of uid service today)) (map snd reqs) bs
   \<and> ledger_count s' (cost_key_of uid service today)
        = ledger_count s (cost_key_of uid service today) + int (length (filter (\<lambda>x. x) bs))
   \<and> (\<forall>i < length reqs.
        (bs ! i = False) =
        float_gt (float_add
                    (admitted_sum (ledger_cost s (cost_key_of uid service today))
                       (take i (map snd reqs)) (take i bs))
                    (snd (reqs ! i)))
          (Finite (COST_LIMIT_PER_DAY config)))"
proof (induction reqs arbitrary: s bs)
  case Nil
  then show ?case by simp
next
  case (Cons r reqs)
  obtain t c where r: "r = (t, c)" by (cases r)
  obtain b s1 where step: "check_cost_limits today t uid service c s = (b, s1)"
    by (cases "check_cost_limits today t uid service c s")
  obtain bs1 where rest: "run_costs today uid service reqs s1 = (bs1, s')" and bs: "bs = b # bs1"
    using Cons.prems(2) r step by (auto split: prod.splits)
  note eff = check_cost_limits_effect [OF cfg Cons.prems(1) step]
  note IH = Cons.IH [OF eff(1) rest]
  have len: "length bs = length (r # reqs)" using IH bs by simp
  have cost: "ledger_cost s' (cost_key_of uid service today)
        = admitted_sum (ledger_cost s (cost_key_of uid service today)) (map snd (r # reqs)) bs"
    using IH eff(6) bs r by simp
  have cnt: "ledger_count s' (cost_key_of uid service today)
        = ledger_count s (cost_key_of uid service today) + int (length (filter (\<lambda>x. x) bs))"
    using IH eff(7) bs by simp
  have each: "(bs ! i = False) =
        float_gt (float_add
                    (admitted_sum (ledger_cost s (cost_key_of uid service today))
                       (take i (map snd (r # reqs))) (take i bs))
                    (snd ((r # reqs) ! i)))
          (Finite (COST_LIMIT_PER_DAY config))" if "i < length (r # reqs)" for i
  proof (cases i)
    case 0
    then show ?thesis using eff(2) bs r by simp
  next
    case (Suc j)
    then have "j < length reqs" using that by simp
    then show ?thesis using IH eff(6) bs r Suc by simp
  qed
  show ?case using len IH cost cnt each by blast
qed

text \<open>
  Claim C2. For a service with a configured daily cap, a ledger store that answers and a
  ledger that has no entry yet for this user, service and day, let the costs of \<open>reqs\<close>
  be submitted one after the other. Then the i-th answer is \<open>False\<close> exactly when the
  float sum of the cumulative cost stored so far and the i-th cost exceeds the cap, where
  the cumulative cost stored so far is the float sum of the costs admitted before, added
  one after the other to \<^verbatim>\<open>0.0\<close> and rounded to a double at every addition; at the end the
  ledger holds that float sum of the admitted costs and the number of admitted requests.
  For a single call in any state whose store answers: on \<open>False\<close> the state is unchanged;
  on \<open>True\<close> the cumulative cost becomes the float sum of the stored cost (\<^verbatim>\<open>0.0\<close> when
  there is no entry) and the estimated cost, the request count grows by exactly one, and
  the entry exists afterwards.
\<close>

theorem cost_governor_check_and_reserve:
  assumes cfg: "RATE_LIMITS service = Some config"
    and h: "healthy (cost_cache s)"
    and fresh: "entries (cost_cache s) (cost_key_of uid service today) = None"
    and run: "run_costs today uid service reqs s = (bs, s')"
  shows "length bs = length reqs
     \<and> (\<forall>i < length reqs.
          (bs ! i = False) =
          float_gt (float_add (admitted_sum (Finite 0) (take i (map snd reqs)) (take i bs))
                      (snd (reqs ! i)))
            (Finite (COST_LIMIT_PER_DAY config)))
     \<and> ledger_cost s' (cost_key_of uid service today) = admitted_sum (Finite 0) (map snd reqs) bs
     \<and> ledger_count s' (cost_key_of uid service today) = int (length (filter (\<lambda>x. x) bs))
     \<and> (healthy (cost_cache s1) \<and> check_cost_limits today t uid service c s1 = (b, s2)
          \<longrightarrow> (\<not> b \<longrightarrow> s2 = s1)
            \<and> (b \<longrightarrow> ledger_cost s2 (cost_key_of uid service today)
                        = float_add (ledger_cost s1 (cost_key_of uid service today)) c
                    \<and> ledger_count s2 (cost_key_of uid service today)
                        = ledger_count s1 (cost_key_of uid service today) + 1
                    \<and> entries (cost_cache s2) (cost_key_of uid service today) \<noteq> None))"
proof -
  have z: "ledger_cost s (cost_key_of uid service today) = Finite 0"
    "ledger_count s (cost_key_of uid service today) = 0"
    using fresh by (simp_all add: ledger_cost_def ledger_count_def)
  have seq: "length bs = length reqs
     \<and> (\<forall>i < length reqs.
          (bs ! i = False) =
          float_gt (float_add (admitted_sum (Finite 0) (take i (map snd reqs)) (take i bs))
                      (snd (reqs ! i)))
            (Finite (COST_LIMIT_PER_DAY config)))
     \<and> ledger_cost s' (cost_key_of uid service today) = admitted_sum (Finite 0) (map snd reqs) bs
     \<and> ledger_count s' (cost_key_of uid service today) = int (length (filter (\<lambda>x. x) bs))"
    using run_costs_general [OF cfg h run] z by simp
  have one: "(\<not> b \<longrightarrow> s2 = s1)
            \<and> (b \<longrightarrow> ledger_cost s2 (cost_key_of uid service today)
                        = float_add (ledger_cost s1 (cost_key_of uid service today)) c
                    \<and> ledger_count s2 (cost_key_of uid service today)
                        = ledger_count s1 (cost_key_of uid service today) + 1
                    \<and> entries (cost_cache s2) (cost_key_of uid service today) \<noteq> None)"
    if hs: "healthy (cost_cache s1)" and st: "check_cost_limits today t uid service c s1 = (b, s2)"
  proof -
    note eff = check_cost_limits_effect [OF cfg hs st]
    show ?thesis using eff(3,4,5,8) by blast
  qed
  show ?thesis using seq one by blast
qed

lemma run_costs_example:
  "run_costs ''2024-01-01'' ''user123'' ''TRANSLATE''
      [(1000, Finite 30), (1001, Finite 30), (1002, Finite 20), (1003, Finite 1)] init_state
   = ([True, False, True, False],
      init_state\<lparr>cost_cache := empty_cache\<lparr>entries :=
         [''user123:TRANSLATE:2024-01-01'' \<mapsto>
            \<lparr>cm_user_id = ''user123'', cm_service = ''TRANSLATE'', cm_cost = Finite 50,
             cm_request_count = 2, cm_timestamp = 1002\<rparr>]\<rparr>\<rparr>)"
  by (simp add: init_state_def empty_cache_def check_cost_limits_def check_cost_limits_try_def
      cost_key_of_def RATE_LIMITS_def cache_get_def cache_set_def py_int_def
      round_double_30 round_double_50 round_double_51 round_double_60)

theorem cost_governor_check_and_reserve_witness:
  "RATE_LIMITS ''TRANSLATE''
     = Some \<lparr>REQUESTS_PER_MINUTE = 100, REQUESTS_PER_HOUR = 2000, COST_LIMIT_PER_DAY = 50\<rparr>
   \<and> healthy (cost_cache init_state)
   \<and> entries (cost_cache init_state) (cost_key_of ''user123'' ''TRANSLATE'' ''2024-01-01'') = None
   \<and> fst (run_costs ''2024-01-01'' ''user123'' ''TRANSLATE''
            [(1000, Finite 30), (1001, Finite 30), (1002, Finite 20), (1003, Finite 1)] init_state)
      = [True, False, True, False]
   \<and> ([True, False, True, False] ! 1 = False) =
        float_gt (float_add
            (admitted_sum (Finite 0)
               (take 1 (map snd [(1000 :: real, Finite 30), (1001, Finite 30), (1002, Finite 20),
                                 (1003, Finite 1)]))
               (take 1 [True, False, True, False]))
            (snd ([(1000 :: real, Finite 30), (1001, Finite 30), (1002, Finite 20),
                   (1003, Finite 1)] ! 1)))
          (Finite 50)
   \<and> ([True, False, True, False] ! 2 = False) =
        float_gt (float_add
            (admitted_sum (Finite 0)
               (take 2 (map snd [(1000 :: real, Finite 30), (1001, Finite 30), (1002, Finite 20),
                                 (1003, Finite 1)]))
               (take 2 [True, False, True, False]))
            (snd ([(1000 :: real, Finite 30), (1001, Finite 30), (1002, Finite 20),
                   (1003, Finite 1)] ! 2)))
          (Finite 50)
   \<and> ledger_cost (snd (run_costs ''2024-01-01'' ''user123'' ''TRANSLATE''
            [(1000, Finite 30), (1001, Finite 30), (1002, Finite 20), (1003, Finite 1)] init_state))
        (cost_key_of ''user123'' ''TRANSLATE'' ''2024-01-01'') = Finite 50
   \<and> ledger_count (snd (run_costs ''2024-01-01'' ''user123'' ''TRANSLATE''
            [(1000, Finite 30), (1001, Finite 30), (1002, Finite 20), (1003, Finite 1)] init_state))
        (cost_key_of ''user123'' ''TRANSLATE'' ''2024-01-01'') = 2
   \<and> check_cost_limits ''2024-01-01'' 1000 ''user123'' ''TRANSLATE'' (Finite 30) init_state
      = (True, snd (check_cost_limits ''2024-01-01'' 1000 ''user123'' ''TRANSLATE'' (Finite 30) init_state))
   \<and> ledger_cost (snd (check_cost_limits ''2024-01-01'' 1000 ''user123'' ''TRANSLATE'' (Finite 30) init_state))
        (cost_key_of ''user123'' ''TRANSLATE'' ''2024-01-01'') = Finite 30
   \<and> ledger_count (snd (check_cost_limits ''2024-01-01'' 1000 ''user123'' ''TRANSLATE'' (Finite 30) init_state))
        (cost_key_of ''user123'' ''TRANSLATE'' ''2024-01-01'') = 1
   \<and> check_cost_limits ''2024-01-01'' 1000 ''user123'' ''TRANSLATE'' (Finite 51) init_state
      = (False, init_state)"
proof -
  let ?cfg = "\<lparr>REQUESTS_PER_MINUTE = 100, REQUESTS_PER_HOUR = 2000, COST_LIMIT_PER_DAY = 50\<rparr>"
  let ?reqs = "[(1000, Finite 30), (1001, Finite 30), (1002, Finite 20), (1003, Finite 1)]
                 :: (real \<times> pyfloat) list"
  let ?k = "cost_key_of ''user123'' ''TRANSLATE'' ''2024-01-01''"
  let ?s' = "init_state\<lparr>cost_cache := empty_cache\<lparr>entries :=
         [''user123:TRANSLATE:2024-01-01'' \<mapsto>
            \<lparr>cm_user_id = ''user123'', cm_service = ''TRANSLATE'', cm_cost = Finite 50,
             cm_request_count = 2, cm_timestamp = 1002\<rparr>]\<rparr>\<rparr>"
  let ?s1 = "snd (check_cost_limits ''2024-01-01'' 1000 ''user123'' ''TRANSLATE'' (Finite 30) init_state)"
  have cfg: "RATE_LIMITS ''TRANSLATE'' = Some ?cfg" by (simp add: RATE_LIMITS_def)
  have h: "healthy (cost_cache init_state)"
    by (simp add: healthy_def init_state_def empty_cache_def)
  have fresh: "entries (cost_cache init_state) ?k = None"
    by (simp add: init_state_def empty_cache_def)
  have run: "run_costs ''2024-01-01'' ''user123'' ''TRANSLATE'' ?reqs init_state
      = ([True, False, True, False], ?s')"
    by (rule run_costs_example)
  have one: "check_cost_limits ''2024-01-01'' 1000 ''user123'' ''TRANSLATE'' (Finite 30) init_state
      = (True, ?s1)"
    by (simp add: init_state_def empty_cache_def check_cost_limits_def check_cost_limits_try_def
      cost_key_of_def RATE_LIMITS_def cache_get_def cache_set_def py_int_def round_double_30)
  have two: "check_cost_limits ''2024-01-01'' 1000 ''user123'' ''TRANSLATE'' (Finite 51) init_state
      = (False, init_state)"
    by (simp add: init_state_def empty_cache_def check_cost_limits_def check_cost_limits_try_def
      cost_key_of_def RATE_LIMITS_def cache_get_def cache_set_def py_int_def round_double_51)
  have z: "ledger_cost init_state ?k = Finite 0" "ledger_count init_state ?k = 0"
    using fresh by (simp_all add: ledger_cost_def ledger_count_def)
  note A = cost_governor_check_and_reserve [OF cfg h fresh run, of init_state 1000 "Finite 30" True ?s1]
  have seq: "\<forall>i < length ?reqs.
        ([True, False, True, False] ! i = False) =
        float_gt (float_add
            (admitted_sum (Finite 0) (take i (map snd ?reqs)) (take i [True, False, True, False]))
            (snd (?reqs ! i)))
          (Finite (COST_LIMIT_PER_DAY ?cfg))"
    using A by blast
  have led: "ledger_cost ?s' ?k = admitted_sum (Finite 0) (map snd ?reqs) [True, False, True, False]"
    "ledger_count ?s' ?k = int (length (filter (\<lambda>x. x) [True, False, True, False]))"
    using A by blast+
  have stp0: "ledger_cost ?s1 ?k = float_add (ledger_cost init_state ?k) (Finite 30)"
    "ledger_count ?s1 ?k = ledger_count init_state ?k + 1"
    using A h one by blast+
  have stp: "ledger_cost ?s1 ?k = Finite 30" "ledger_count ?s1 ?k = 1"
    using stp0 z by (simp_all add: round_double_30)
  have r1: "fst (run_costs ''2024-01-01'' ''user123'' ''TRANSLATE'' ?reqs init_state)
      = [True, False, True, False]"
    unfolding run by simp
  have r2: "ledger_cost (snd (run_costs ''2024-01-01'' ''user123'' ''TRANSLATE'' ?reqs init_state)) ?k
      = Finite 50"
    unfolding run snd_conv led(1) by (simp add: round_double_30 round_double_50)
  have r3: "ledger_count (snd (run_costs ''2024-01-01'' ''user123'' ''TRANSLATE'' ?reqs init_state)) ?k = 2"
    unfolding run snd_conv led(2) by simp
  have i1: "([True, False, True, False] ! 1 = False) =
        float_gt (float_add
            (admitted_sum (Finite 0) (take 1 (map snd ?reqs)) (take 1 [True, False, True, False]))
            (snd (?reqs ! 1)))
          (Finite 50)"
    using seq [rule_format, of 1] by simp
  have i2: "([True, False, True, False] ! 2 = False) =
        float_gt (float_add
            (admitted_sum (Finite 0) (take 2 (map snd ?reqs)) (take 2 [True, False, True, False]))
            (snd (?reqs ! 2)))
          (Finite 50)"
    using seq [rule_format, of 2] by simp
  show ?thesis
    by (intro conjI)
      (rule cfg, rule h, rule fresh, rule r1, rule i1, rule i2, rule r2, rule r3, rule one,
       rule stp(1), rule stp(2), rule two)
qed

text \<open>
  The sums of the claim are not sums of real numbers. With the cap \<^verbatim>\<open>100.0\<close> of the Gemini
  service and the costs \<^verbatim>\<open>0.1\<close>, \<^verbatim>\<open>0.01\<close> and \<^verbatim>\<open>99.89\<close> submitted in this order from an empty
  ledger, all three requests are admitted, although the exact sum of the first two costs
  plus the third exceeds the cap: the float sum \<^verbatim>\<open>0.11 + 99.89\<close> rounds to \<^verbatim>\<open>100.0\<close>. The
  third admission raises the stored cumulative cost from \<^verbatim>\<open>0.11\<close> to \<^verbatim>\<open>100.0\<close>, which is not
  an increase by the third cost.
\<close>

lemma run_costs_rounding:
  "run_costs ''2024-01-01'' ''user123'' ''GEMINI''
      [(1000, Finite double_0_1), (1001, Finite double_0_01), (1002, Finite double_99_89)]
      init_state
   = ([True, True, True],
      init_state\<lparr>cost_cache := empty_cache\<lparr>entries :=
         [''user123:GEMINI:2024-01-01'' \<mapsto>
            \<lparr>cm_user_id = ''user123'', cm_service = ''GEMINI'', cm_cost = Finite 100,
             cm_request_count = 3, cm_timestamp = 1002\<rparr>]\<rparr>\<rparr>)"
  by (simp add: init_state_def empty_cache_def check_cost_limits_def check_cost_limits_try_def
      cost_key_of_def RATE_LIMITS_def cache_get_def cache_set_def py_int_def
      round_double_0_1 round_double_0_11 round_double_100 doubles_below_cap)

lemma run_costs_rounding_prefix:
  "run_costs ''2024-01-01'' ''user123'' ''GEMINI''
      [(1000, Finite double_0_1), (1001, Finite double_0_01)] init_state
   = ([True, True],
      init_state\<lparr>cost_cache := empty_cache\<lparr>entries :=
         [''user123:GEMINI:2024-01-01'' \<mapsto>
            \<lparr>cm_user_id = ''user123'', cm_service = ''GEMINI'', cm_cost = Finite double_0_11,
             cm_request_count = 2, cm_timestamp = 1001\<rparr>]\<rparr>\<rparr>)"
  by (simp add: init_state_def empty_cache_def check_cost_limits_def check_cost_limits_try_def
      cost_key_of_def RATE_LIMITS_def cache_get_def cache_set_def py_int_def
      round_double_0_1 round_double_0_11 round_double_100 doubles_below_cap)

theorem cost_governor_exact_sum_refuted:
  "fst (run_costs ''2024-01-01'' ''user123'' ''GEMINI''
          [(1000, Finite double_0_1), (1001, Finite double_0_01), (1002, Finite double_99_89)]
          init_state) = [True, True, True]
   \<and> exact_admitted_sum [double_0_1, double_0_01] [True, True] + double_99_89 > 100
   \<and> ledger_cost (snd (run_costs ''2024-01-01'' ''user123'' ''GEMINI''
          [(1000, Finite double_0_1), (1001, Finite double_0_01)] init_state))
        (cost_key_of ''user123'' ''GEMINI'' ''2024-01-01'') = Finite double_0_11
   \<and> ledger_cost (snd (run_costs ''2024-01-01'' ''user123'' ''GEMINI''
          [(1000, Finite double_0_1), (1001, Finite double_0_01), (1002, Finite double_99_89)]
          init_state))
        (cost_key_of ''user123'' ''GEMINI'' ''2024-01-01'') = Finite 100
   \<and> 100 - double_0_11 \<noteq> double_99_89"
proof -
  have a: "exact_admitted_sum [double_0_1, double_0_01] [True, True] + double_99_89 > 100"
    by (simp add: double_0_1_def double_0_01_def double_99_89_def)
  have b: "100 - double_0_11 \<noteq> double_99_89"
    by (simp add: double_0_11_def double_99_89_def)
  show ?thesis
    unfolding run_costs_rounding run_costs_rounding_prefix
    using a b by (simp add: ledger_cost_def cost_key_of_def empty_cache_def)
qed

section \<open>Cost governor: failure of the ledger store\<close>

text \<open>
  Claim C7. The cost governor fails open. If the lookup in the ledger store raises, the
  check answers \<open>True\<close> and leaves the state alone, for every user, service and cost. If
  the lookup succeeds and the update raises, the same holds. In general every exception
  raised inside the \<^verbatim>\<open>try\<close> block becomes the answer \<open>True\<close>; \<open>check_cost_limits\<close> itself
  returns a truth value in every case and raises nothing.
\<close>

theorem cost_governor_fails_open:
  "(get_raises (cost_cache s) = Some e
      \<longrightarrow> check_cost_limits today t uid service estimated_cost s = (True, s))
   \<and> (RATE_LIMITS service = Some config \<and> get_raises (cost_cache s) = None
        \<and> set_raises (cost_cache s) = Some e
        \<and> \<not> float_gt (float_add (ledger_cost s (cost_key_of uid service today)) estimated_cost)
               (Finite (COST_LIMIT_PER_DAY config))
      \<longrightarrow> fst (check_cost_limits_try (cost_key_of uid service today) t uid service estimated_cost s) = Inl e
          \<and> check_cost_limits today t uid service estimated_cost s = (True, s))
   \<and> (fst (check_cost_limits_try (cost_key_of uid service today) t uid service estimated_cost s) = Inl e
      \<longrightarrow> check_cost_limits today t uid service estimated_cost s = (True, s))"
  by (auto simp: check_cost_limits_def check_cost_limits_try_def cache_get_def cache_set_def
      ledger_cost_def Let_def split: option.splits sum.splits prod.splits if_splits)

theorem cost_governor_fails_open_witness:
  "get_raises (cost_cache (broken_ledger (Some (OtherException ''Cache error'')) None))
     = Some (OtherException ''Cache error'')
   \<and> check_cost_limits ''2024-01-01'' 1000 ''user123'' ''GEMINI'' (Finite 5)
        (broken_ledger (Some (OtherException ''Cache error'')) None)
      = (True, broken_ledger (Some (OtherException ''Cache error'')) None)
   \<and> RATE_LIMITS ''GEMINI''
      = Some \<lparr>REQUESTS_PER_MINUTE = 60, REQUESTS_PER_HOUR = 1000, COST_LIMIT_PER_DAY = 100\<rparr>
   \<and> get_raises (cost_cache (broken_ledger None (Some (OtherException ''Cache error'')))) = None
   \<and> set_raises (cost_cache (broken_ledger None (Some (OtherException ''Cache error''))))
      = Some (OtherException ''Cache error'')
   \<and> \<not> float_gt (float_add (ledger_cost (broken_ledger None (Some (OtherException ''Cache error'')))
                               (cost_key_of ''user123'' ''GEMINI'' ''2024-01-01'')) (Finite 5))
          (Finite 100)
   \<and> fst (check_cost_limits_try (cost_key_of ''user123'' ''GEMINI'' ''2024-01-01'') 1000
            ''user123'' ''GEMINI'' (Finite 5) (broken_ledger None (Some (OtherException ''Cache error''))))
      = Inl (OtherException ''Cache error'')
   \<and> check_cost_limits ''2024-01-01'' 1000 ''user123'' ''GEMINI'' (Finite 5)
        (broken_ledger None (Some (OtherException ''Cache error'')))
      = (True, broken_ledger None (Some (OtherException ''Cache error'')))"
proof -
  let ?e = "OtherException ''Cache error''"
  let ?cfg = "\<lparr>REQUESTS_PER_MINUTE = 60, REQUESTS_PER_HOUR = 1000, COST_LIMIT_PER_DAY = 100\<rparr>"
  have g: "get_raises (cost_cache (broken_ledger (Some ?e) None)) = Some ?e"
    by (simp add: broken_ledger_def)
  have cfg: "RATE_LIMITS ''GEMINI'' = Some ?cfg"
    by (simp add: RATE_LIMITS_def)
  have u: "get_raises (cost_cache (broken_ledger None (Some ?e))) = None"
    "set_raises (cost_cache (broken_ledger None (Some ?e))) = Some ?e"
    by (simp_all add: broken_ledger_def)
  have room: "\<not> float_gt (float_add (ledger_cost (broken_ledger None (Some ?e))
          (cost_key_of ''user123'' ''GEMINI'' ''2024-01-01'')) (Finite 5)) (Finite 100)"
    by (simp add: ledger_cost_def broken_ledger_def empty_cache_def round_double_5)
  have room': "\<not> float_gt (float_add (ledger_cost (broken_ledger None (Some ?e))
          (cost_key_of ''user123'' ''GEMINI'' ''2024-01-01'')) (Finite 5))
          (Finite (COST_LIMIT_PER_DAY ?cfg))"
    using room by simp
  note A = cost_governor_fails_open [of "broken_ledger (Some ?e) None" ?e "''2024-01-01''" 1000
      "''user123''" "''GEMINI''" "Finite 5" ?cfg]
  note B = cost_governor_fails_open [of "broken_ledger None (Some ?e)" ?e "''2024-01-01''" 1000
      "''user123''" "''GEMINI''" "Finite 5" ?cfg]
  have a: "check_cost_limits ''2024-01-01'' 1000 ''user123'' ''GEMINI'' (Finite 5)
        (broken_ledger (Some ?e) None) = (True, broken_ledger (Some ?e) None)"
    using A g by blast
  have b: "fst (check_cost_limits_try (cost_key_of ''user123'' ''GEMINI'' ''2024-01-01'') 1000
            ''user123'' ''GEMINI'' (Finite 5) (broken_ledger None (Some ?e))) = Inl ?e
      \<and> check_cost_limits ''2024-01-01'' 1000 ''user123'' ''GEMINI'' (Finite 5)
        (broken_ledger None (Some ?e)) = (True, broken_ledger None (Some ?e))"
    using B cfg u room' by blast
  show ?thesis
    by (intro conjI)
      (rule g, rule a, rule cfg, rule u(1), rule u(2), rule room, rule b [THEN conjunct1],
       rule b [THEN conjunct2])
qed

section \<open>Identity verifier: the rejections\<close>

lemma split_on_nonempty: "split_on c xs \<noteq> []"
  by (induction xs) (auto split: list.splits)

lemma hd_split_on: "hd (split_on c xs) = takeWhile (\<lambda>x. x \<noteq> c) xs"
  by (induction xs) (auto split: list.splits simp: split_on_nonempty)

lemma bearer_token_bearer:
  "bearer_token (Some (''Bearer '' @ rest)) = Inr (Some (takeWhile (\<lambda>x. x \<noteq> CHR '' '') rest))"
proof -
  obtain w ws where sp: "split_on CHR '' '' rest = w # ws"
    using split_on_nonempty [of "CHR '' ''" rest] by (cases "split_on CHR '' '' rest") auto
  have "w = takeWhile (\<lambda>x. x \<noteq> CHR '' '') rest"
    using hd_split_on [of "CHR '' ''" rest] sp by simp
  then show ?thesis using sp by (simp add: bearer_token_def startswith_def)
qed

lemma bearer_token_other:
  "\<not> startswith ''Bearer '' h \<Longrightarrow> bearer_token (Some h) = Inr None"
  by (simp add: bearer_token_def)

lemma startswith_bearer: "startswith ''Bearer '' h \<Longrightarrow> \<exists>rest. h = ''Bearer '' @ rest"
  unfolding startswith_def by (metis append_take_drop_id)

lemma bearer_token_total: "\<exists>tk. bearer_token auth_header = Inr tk"
proof (cases auth_header)
  case None
  then show ?thesis by (simp add: bearer_token_def)
next
  case (Some h)
  show ?thesis
  proof (cases "startswith ''Bearer '' h")
    case True
    then obtain rest where "h = ''Bearer '' @ rest" using startswith_bearer by blast
    then show ?thesis using Some bearer_token_bearer by blast
  next
    case False
    then show ?thesis using Some bearer_token_other by blast
  qed
qed

text \<open>
  Claim C4. For every request, clock reading, wrapped function and state: when there is
  no \<^verbatim>\<open>Authorization\<close> header the verifier answers 401 \<^verbatim>\<open>Access token required\<close> and writes
  the matching audit event; a header that does not start with \<^verbatim>\<open>Bearer \<close> gets the
  identical answer and event, and so does a header \<^verbatim>\<open>Bearer \<close> followed by an empty token.
  Otherwise the token is the text after \<^verbatim>\<open>Bearer \<close> up to the next space; with the signing
  key available, a token that PyJWT rejects as expired is answered 403 \<^verbatim>\<open>Token expired\<close>,
  and a token that PyJWT rejects as invalid for any other reason is answered 403
  \<^verbatim>\<open>Invalid or expired token\<close>. The three answers are pairwise different.
\<close>

theorem identity_verifier_error_taxonomy:
  "(headers req ''Authorization'' = None
      \<longrightarrow> authenticate_token ev t stmp f req s
          = (Inr ([(''error'', PStr ''Access token required'')], 401),
             log_audit_event t
               (auth_event req stmp (Some ''unknown'') False (Some ''Access token required'')) s))
   \<and> (headers req ''Authorization'' = Some h \<and> \<not> startswith ''Bearer '' h
      \<longrightarrow> authenticate_token ev t stmp f req s
          = (Inr ([(''error'', PStr ''Access token required'')], 401),
             log_audit_event t
               (auth_event req stmp (Some ''unknown'') False (Some ''Access token required'')) s))
   \<and> (headers req ''Authorization'' = Some (''Bearer '' @ rest)
        \<and> takeWhile (\<lambda>x. x \<noteq> CHR '' '') rest = []
      \<longrightarrow> authenticate_token ev t stmp f req s
          = (Inr ([(''error'', PStr ''Access token required'')], 401),
             log_audit_event t
               (auth_event req stmp (Some ''unknown'') False (Some ''Access token required'')) s))
   \<and> (headers req ''Authorization'' = Some (''Bearer '' @ rest)
        \<and> takeWhile (\<lambda>x. x \<noteq> CHR '' '') rest \<noteq> []
        \<and> jwt_signing_key ev = Some key
        \<and> jwt_decode ev (takeWhile (\<lambda>x. x \<noteq> CHR '' '') rest) key = Inl ExpiredSignatureError
      \<longrightarrow> authenticate_token ev t stmp f req s
          = (Inr ([(''error'', PStr ''Token expired'')], 403),
             log_audit_event t
               (auth_event req stmp (Some ''unknown'') False (Some ''Token expired'')) s))
   \<and> (headers req ''Authorization'' = Some (''Bearer '' @ rest)
        \<and> takeWhile (\<lambda>x. x \<noteq> CHR '' '') rest \<noteq> []
        \<and> jwt_signing_key ev = Some key
        \<and> jwt_decode ev (takeWhile (\<lambda>x. x \<noteq> CHR '' '') rest) key = Inl InvalidTokenError
      \<longrightarrow> authenticate_token ev t stmp f req s
          = (Inr ([(''error'', PStr ''Invalid or expired token'')], 403),
             log_audit_event t
               (auth_event req stmp (Some ''unknown'') False (Some ''Invalid token'')) s))
   \<and> ([(''error'', PStr ''Access token required'')], 401 :: int)
        \<noteq> ([(''error'', PStr ''Token expired'')], 403)
   \<and> ([(''error'', PStr ''Access token required'')], 401 :: int)
        \<noteq> ([(''error'', PStr ''Invalid or expired token'')], 403)
   \<and> ([(''error'', PStr ''Token expired'')], 403 :: int)
        \<noteq> ([(''error'', PStr ''Invalid or expired token'')], 403)"
proof -
  have a: "headers req ''Authorization'' = None \<Longrightarrow> authenticate_token ev t stmp f req s
          = (Inr ([(''error'', PStr ''Access token required'')], 401),
             log_audit_event t
               (auth_event req stmp (Some ''unknown'') False (Some ''Access token required'')) s)"
    by (simp add: authenticate_token_def bearer_token_def)
  have b: "headers req ''Authorization'' = Some h \<Longrightarrow> \<not> startswith ''Bearer '' h \<Longrightarrow>
        authenticate_token ev t stmp f req s
          = (Inr ([(''error'', PStr ''Access token required'')], 401),
             log_audit_event t
               (auth_event req stmp (Some ''unknown'') False (Some ''Access token required'')) s)"
    by (simp add: authenticate_token_def bearer_token_other)
  have c: "headers req ''Authorization'' = Some (''Bearer '' @ rest) \<Longrightarrow>
        takeWhile (\<lambda>x. x \<noteq> CHR '' '') rest = [] \<Longrightarrow>
        authenticate_token ev t stmp f req s
          = (Inr ([(''error'', PStr ''Access token required'')], 401),
             log_audit_event t
               (auth_event req stmp (Some ''unknown'') False (Some ''Access token required'')) s)"
    by (simp only: authenticate_token_def bearer_token_bearer) simp
  have d: "headers req ''Authorization'' = Some (''Bearer '' @ rest) \<Longrightarrow>
        takeWhile (\<lambda>x. x \<noteq> CHR '' '') rest \<noteq> [] \<Longrightarrow> jwt_signing_key ev = Some key \<Longrightarrow>
        jwt_decode ev (takeWhile (\<lambda>x. x \<noteq> CHR '' '') rest) key = Inl ExpiredSignatureError \<Longrightarrow>
        authenticate_token ev t stmp f req s
          = (Inr ([(''error'', PStr ''Token expired'')], 403),
             log_audit_event t
               (auth_event req stmp (Some ''unknown'') False (Some ''Token expired'')) s)"
    by (simp only: authenticate_token_def bearer_token_bearer)
       (simp add: authenticate_try_def get_secure_config_def)
  have e: "headers req ''Authorization'' = Some (''Bearer '' @ rest) \<Longrightarrow>
        takeWhile (\<lambda>x. x \<noteq> CHR '' '') rest \<noteq> [] \<Longrightarrow> jwt_signing_key ev = Some key \<Longrightarrow>
        jwt_decode ev (takeWhile (\<lambda>x. x \<noteq> CHR '' '') rest) key = Inl InvalidTokenError \<Longrightarrow>
        authenticate_token ev t stmp f req s
          = (Inr ([(''error'', PStr ''Invalid or expired token'')], 403),
             log_audit_event t
               (auth_event req stmp (Some ''unknown'') False (Some ''Invalid token'')) s)"
    by (simp only: authenticate_token_def bearer_token_bearer)
       (simp add: authenticate_try_def get_secure_config_def)
  show ?thesis using a b c d e by simp
qed

theorem identity_verifier_error_taxonomy_witness:
  "headers (request_with None) ''Authorization'' = None
   \<and> fst (authenticate_token test_env 1000 ''2024-01-01T00:00:00.000Z'' ok_handler
             (request_with None) init_state)
       = Inr ([(''error'', PStr ''Access token required'')], 401)
   \<and> headers (request_with (Some ''Basic dXNlcg=='')) ''Authorization'' = Some ''Basic dXNlcg==''
   \<and> \<not> startswith ''Bearer '' ''Basic dXNlcg==''
   \<and> fst (authenticate_token test_env 1000 ''2024-01-01T00:00:00.000Z'' ok_handler
             (request_with (Some ''Basic dXNlcg=='')) init_state)
       = Inr ([(''error'', PStr ''Access token required'')], 401)
   \<and> headers (request_with (Some ''Bearer '')) ''Authorization'' = Some (''Bearer '' @ [])
   \<and> takeWhile (\<lambda>x. x \<noteq> CHR '' '') [] = ([] :: string)
   \<and> fst (authenticate_token test_env 1000 ''2024-01-01T00:00:00.000Z'' ok_handler
             (request_with (Some ''Bearer '')) init_state)
       = Inr ([(''error'', PStr ''Access token required'')], 401)
   \<and> headers (request_with (Some ''Bearer expired-token'')) ''Authorization''
       = Some (''Bearer '' @ ''expired-token'')
   \<and> takeWhile (\<lambda>x. x \<noteq> CHR '' '') ''expired-token'' \<noteq> []
   \<and> jwt_signing_key test_env = Some ''test-key''
   \<and> jwt_decode test_env (takeWhile (\<lambda>x. x \<noteq> CHR '' '') ''expired-token'') ''test-key''
       = Inl ExpiredSignatureError
   \<and> fst (authenticate_token test_env 1000 ''2024-01-01T00:00:00.000Z'' ok_handler
             (request_with (Some ''Bearer expired-token'')) init_state)
       = Inr ([(''error'', PStr ''Token expired'')], 403)
   \<and> headers (request_with (Some ''Bearer invalid-token'')) ''Authorization''
       = Some (''Bearer '' @ ''invalid-token'')
   \<and> takeWhile (\<lambda>x. x \<noteq> CHR '' '') ''invalid-token'' \<noteq> []
   \<and> jwt_decode test_env (takeWhile (\<lambda>x. x \<noteq> CHR '' '') ''invalid-token'') ''test-key''
       = Inl InvalidTokenError
   \<and> fst (authenticate_token test_env 1000 ''2024-01-01T00:00:00.000Z'' ok_handler
             (request_with (Some ''Bearer invalid-token'')) init_state)
       = Inr ([(''error'', PStr ''Invalid or expired token'')], 403)"
proof -
  let ?ts = "''2024-01-01T00:00:00.000Z''"
  have h1: "headers (request_with None) ''Authorization'' = None"
    by (simp add: request_with_def)
  have h2: "headers (request_with (Some ''Basic dXNlcg=='')) ''Authorization'' = Some ''Basic dXNlcg==''"
    by (simp add: request_with_def)
  have n2: "\<not> startswith ''Bearer '' ''Basic dXNlcg==''"
    by (simp add: startswith_def)
  have h3: "headers (request_with (Some ''Bearer '')) ''Authorization'' = Some (''Bearer '' @ [])"
    by (simp add: request_with_def)
  have e3: "takeWhile (\<lambda>x. x \<noteq> CHR '' '') [] = ([] :: string)" by simp
  have h4: "headers (request_with (Some ''Bearer expired-token'')) ''Authorization''
       = Some (''Bearer '' @ ''expired-token'')"
    by (simp add: request_with_def)
  have t4: "takeWhile (\<lambda>x. x \<noteq> CHR '' '') ''expired-token'' \<noteq> []" by simp
  have k: "jwt_signing_key test_env = Some ''test-key''" by (simp add: test_env_def)
  have d4: "jwt_decode test_env (takeWhile (\<lambda>x. x \<noteq> CHR '' '') ''expired-token'') ''test-key''
       = Inl ExpiredSignatureError"
    by (simp add: test_env_def pyjwt_stub_def)
  have h5: "headers (request_with (Some ''Bearer invalid-token'')) ''Authorization''
       = Some (''Bearer '' @ ''invalid-token'')"
    by (simp add: request_with_def)
  have t5: "takeWhile (\<lambda>x. x \<noteq> CHR '' '') ''invalid-token'' \<noteq> []" by simp
  have d5: "jwt_decode test_env (takeWhile (\<lambda>x. x \<noteq> CHR '' '') ''invalid-token'') ''test-key''
       = Inl InvalidTokenError"
    by (simp add: test_env_def pyjwt_stub_def)
  note A = identity_verifier_error_taxonomy [where req = "request_with None" and ev = test_env
      and t = 1000 and stmp = ?ts and f = ok_handler and s = init_state, THEN conjunct1, THEN mp, OF h1]
  note B = identity_verifier_error_taxonomy [where req = "request_with (Some ''Basic dXNlcg=='')"
      and ev = test_env and t = 1000 and stmp = ?ts and f = ok_handler and s = init_state
      and h = "''Basic dXNlcg==''",
      THEN conjunct2, THEN conjunct1, THEN mp, OF conjI [OF h2 n2]]
  note C = identity_verifier_error_taxonomy [where req = "request_with (Some ''Bearer '')"
      and ev = test_env and t = 1000 and stmp = ?ts and f = ok_handler and s = init_state
      and rest = "[]",
      THEN conjunct2, THEN conjunct2, THEN conjunct1, THEN mp, OF conjI [OF h3 e3]]
  note D = identity_verifier_error_taxonomy [where req = "request_with (Some ''Bearer expired-token'')"
      and ev = test_env and t = 1000 and stmp = ?ts and f = ok_handler and s = init_state
      and rest = "''expired-token''" and key = "''test-key''",
      THEN conjunct2, THEN conjunct2, THEN conjunct2, THEN conjunct1, THEN mp,
      OF conjI [OF h4 conjI [OF t4 conjI [OF k d4]]]]
  note E = identity_verifier_error_taxonomy [where req = "request_with (Some ''Bearer invalid-token'')"
      and ev = test_env and t = 1000 and stmp = ?ts and f = ok_handler and s = init_state
      and rest = "''invalid-token''" and key = "''test-key''",
      THEN conjunct2, THEN conjunct2, THEN conjunct2, THEN conjunct2, THEN conjunct1, THEN mp,
      OF conjI [OF h5 conjI [OF t5 conjI [OF k d5]]]]
  have a: "fst (authenticate_token test_env 1000 ?ts ok_handler (request_with None) init_state)
       = Inr ([(''error'', PStr ''Access token required'')], 401)"
    unfolding A by simp
  have b: "fst (authenticate_token test_env 1000 ?ts ok_handler
             (request_with (Some ''Basic dXNlcg=='')) init_state)
       = Inr ([(''error'', PStr ''Access token required'')], 401)"
    unfolding B by simp
  have c: "fst (authenticate_token test_env 1000 ?ts ok_handler
             (request_with (Some ''Bearer '')) init_state)
       = Inr ([(''error'', PStr ''Access token required'')], 401)"
    unfolding C by simp
  have d: "fst (authenticate_token test_env 1000 ?ts ok_handler
             (request_with (Some ''Bearer expired-token'')) init_state)
       = Inr ([(''error'', PStr ''Token expired'')], 403)"
    unfolding D by simp
  have e: "fst (authenticate_token test_env 1000 ?ts ok_handler
             (request_with (Some ''Bearer invalid-token'')) init_state)
       = Inr ([(''error'', PStr ''Invalid or expired token'')], 403)"
    unfolding E by simp
  show ?thesis
    by (intro conjI)
      (rule h1, rule a, rule h2, rule n2, rule b, rule h3, rule e3, rule c, rule h4, rule t4,
       rule k, rule d4, rule d, rule h5, rule t5, rule d5, rule e)
qed

section \<open>Rate limiter: the retry-after value\<close>

lemma py_int_mono: "t1 \<le> t2 \<Longrightarrow> py_int t1 \<le> py_int t2"
proof -
  assume le: "t1 \<le> t2"
  consider "0 \<le> t1" | "t1 < 0" "t2 < 0" | "t1 < 0" "0 \<le> t2" by linarith
  then show ?thesis
  proof cases
    case 1
    then show ?thesis using le by (simp add: py_int_def floor_mono)
  next
    case 2
    then show ?thesis using le by (simp add: py_int_def ceiling_mono)
  next
    case 3
    have "\<lceil>t1\<rceil> \<le> 0" using 3(1) by (simp add: ceiling_le_iff)
    moreover have "0 \<le> \<lfloor>t2\<rfloor>" using 3(2) by simp
    ultimately have "\<lceil>t1\<rceil> \<le> \<lfloor>t2\<rfloor>" by linarith
    then show ?thesis using 3 by (simp add: py_int_def)
  qed
qed

lemma window_offset: "(n::int) - (n div k) * k = n mod k"
  by (simp add: minus_div_mult_eq_mod)

lemma rate_limit_check_rejection:
  assumes "fst (rate_limit_check service uid now req s) = Inr (Some r)"
  shows "(r = ([(''error'', PStr ''Rate limit exceeded''),
               (''retryAfter'', PInt (60 - (now - (now div 60) * 60)))], 429)
        \<or> r = ([(''error'', PStr ''Hourly rate limit exceeded''),
                 (''retryAfter'', PInt (3600 - (now - (now div 3600) * 3600)))], 429))
       \<and> snd (rate_limit_check service uid now req s) = s"
  using assms
  by (auto simp: rate_limit_check_def cache_get_def cache_set_def Let_def
      split: option.splits sum.splits if_splits)

text \<open>
  Claim C8. Whenever the rate limiter rejects, the body carries a retry-after value: on a
  minute rejection it is 60 minus the whole seconds elapsed since the start of the minute
  window and lies between 1 and 60; on an hour rejection it is 3600 minus the whole
  seconds elapsed since the start of the hour window and lies between 1 and 3600; for a
  verified user that body is what the decorated function returns, with the state
  unchanged. For two rejections of the same kind at clock readings \<open>t1 \<le> t2\<close> in the same
  window, the later value is never larger than the earlier one, and it is strictly
  smaller exactly when the two readings fall into different whole seconds.
\<close>

theorem retry_after_bounds_and_order:
  "(fst (rate_limit_check service uid (py_int t) req s) = Inr (Some r)
      \<longrightarrow> (\<exists>v. retry_after r = Some (PInt v)
             \<and> ((error_of r = Some (PStr ''Rate limit exceeded'')
                   \<and> v = 60 - (py_int t - (py_int t div 60) * 60) \<and> 1 \<le> v \<and> v \<le> 60)
                \<or> (error_of r = Some (PStr ''Hourly rate limit exceeded'')
                   \<and> v = 3600 - (py_int t - (py_int t div 3600) * 3600) \<and> 1 \<le> v \<and> v \<le> 3600)))
          \<and> (user_id req = Some uid \<and> uid \<noteq> [] \<longrightarrow> rate_limiter service f t req s = (r, s)))
   \<and> (t1 \<le> t2
        \<and> fst (rate_limit_check service uid (py_int t1) req1 s1) = Inr (Some r1)
        \<and> fst (rate_limit_check service uid (py_int t2) req2 s2) = Inr (Some r2)
        \<and> retry_after r1 = Some (PInt v1) \<and> retry_after r2 = Some (PInt v2)
        \<and> ((error_of r1 = Some (PStr ''Rate limit exceeded'')
               \<and> error_of r2 = Some (PStr ''Rate limit exceeded'')
               \<and> py_int t1 div 60 = py_int t2 div 60)
           \<or> (error_of r1 = Some (PStr ''Hourly rate limit exceeded'')
               \<and> error_of r2 = Some (PStr ''Hourly rate limit exceeded'')
               \<and> py_int t1 div 3600 = py_int t2 div 3600))
      \<longrightarrow> v2 \<le> v1 \<and> (v2 < v1) = (py_int t1 < py_int t2))"
proof -
  have bounds: "1 \<le> 60 - (n - (n div 60) * 60) \<and> 60 - (n - (n div 60) * 60) \<le> 60
      \<and> 1 \<le> 3600 - (n - (n div 3600) * 3600) \<and> 3600 - (n - (n div 3600) * 3600) \<le> 3600"
    for n :: int
  proof -
    have "0 \<le> n mod 60" "n mod 60 < 60" "0 \<le> n mod 3600" "n mod 3600 < 3600" by simp_all
    then show ?thesis unfolding window_offset by linarith
  qed
  have one: "(\<exists>v. retry_after r = Some (PInt v)
             \<and> ((error_of r = Some (PStr ''Rate limit exceeded'')
                   \<and> v = 60 - (py_int t - (py_int t div 60) * 60) \<and> 1 \<le> v \<and> v \<le> 60)
                \<or> (error_of r = Some (PStr ''Hourly rate limit exceeded'')
                   \<and> v = 3600 - (py_int t - (py_int t div 3600) * 3600) \<and> 1 \<le> v \<and> v \<le> 3600)))
          \<and> (user_id req = Some uid \<and> uid \<noteq> [] \<longrightarrow> rate_limiter service f t req s = (r, s))"
    if rej: "fst (rate_limit_check service uid (py_int t) req s) = Inr (Some r)"
  proof -
    note R = rate_limit_check_rejection [OF rej]
    have v: "\<exists>v. retry_after r = Some (PInt v)
             \<and> ((error_of r = Some (PStr ''Rate limit exceeded'')
                   \<and> v = 60 - (py_int t - (py_int t div 60) * 60) \<and> 1 \<le> v \<and> v \<le> 60)
                \<or> (error_of r = Some (PStr ''Hourly rate limit exceeded'')
                   \<and> v = 3600 - (py_int t - (py_int t div 3600) * 3600) \<and> 1 \<le> v \<and> v \<le> 3600))"
      using R bounds [of "py_int t"] by (auto simp: retry_after_def error_of_def)
    have c: "rate_limit_check service uid (py_int t) req s = (Inr (Some r), s)"
      using rej R by (metis prod.collapse)
    have "rate_limiter service f t req s = (r, s)" if "user_id req = Some uid" "uid \<noteq> []"
      unfolding rate_limiter_verified [OF that] c by simp
    then show ?thesis using v by blast
  qed
  have two: "v2 \<le> v1 \<and> (v2 < v1) = (py_int t1 < py_int t2)"
    if le: "t1 \<le> t2"
      and r1: "fst (rate_limit_check service uid (py_int t1) req1 s1) = Inr (Some r1)"
      and r2: "fst (rate_limit_check service uid (py_int t2) req2 s2) = Inr (Some r2)"
      and v1: "retry_after r1 = Some (PInt v1)" and v2: "retry_after r2 = Some (PInt v2)"
      and w: "(error_of r1 = Some (PStr ''Rate limit exceeded'')
               \<and> error_of r2 = Some (PStr ''Rate limit exceeded'')
               \<and> py_int t1 div 60 = py_int t2 div 60)
           \<or> (error_of r1 = Some (PStr ''Hourly rate limit exceeded'')
               \<and> error_of r2 = Some (PStr ''Hourly rate limit exceeded'')
               \<and> py_int t1 div 3600 = py_int t2 div 3600)"
  proof -
    note R1 = rate_limit_check_rejection [OF r1, THEN conjunct1]
    note R2 = rate_limit_check_rejection [OF r2, THEN conjunct1]
    note m = py_int_mono [OF le]
    from w show ?thesis
    proof
      assume a: "error_of r1 = Some (PStr ''Rate limit exceeded'')
               \<and> error_of r2 = Some (PStr ''Rate limit exceeded'')
               \<and> py_int t1 div 60 = py_int t2 div 60"
      have e1: "v1 = 60 - (py_int t1 - (py_int t1 div 60) * 60)"
        using R1 a v1 by (auto simp: retry_after_def error_of_def)
      have e2: "v2 = 60 - (py_int t2 - (py_int t1 div 60) * 60)"
        using R2 a v2 by (auto simp: retry_after_def error_of_def)
      show ?thesis using m unfolding e1 e2 by auto
    next
      assume a: "error_of r1 = Some (PStr ''Hourly rate limit exceeded'')
               \<and> error_of r2 = Some (PStr ''Hourly rate limit exceeded'')
               \<and> py_int t1 div 3600 = py_int t2 div 3600"
      have e1: "v1 = 3600 - (py_int t1 - (py_int t1 div 3600) * 3600)"
        using R1 a v1 by (auto simp: retry_after_def error_of_def)
      have e2: "v2 = 3600 - (py_int t2 - (py_int t1 div 3600) * 3600)"
        using R2 a v2 by (auto simp: retry_after_def error_of_def)
      show ?thesis using m unfolding e1 e2 by auto
    qed
  qed
  show ?thesis using one two by blast
qed

lemma speech_minute_rejection:
  assumes "py_int t div 60 * 60 = 1200"
  shows "rate_limit_check ''SPEECH'' ''user123'' (py_int t) verified_request
           (with_rate_entry (minute_key ''user123'' ''SPEECH'' 1200) 30 init_state)
       = (Inr (Some ([(''error'', PStr ''Rate limit exceeded''),
                      (''retryAfter'', PInt (60 - (py_int t - 1200)))], 429)),
          with_rate_entry (minute_key ''user123'' ''SPEECH'' 1200) 30 init_state)"
proof -
  let ?cfg = "\<lparr>REQUESTS_PER_MINUTE = 30, REQUESTS_PER_HOUR = 500, COST_LIMIT_PER_DAY = 75\<rparr>"
  let ?sm = "with_rate_entry (minute_key ''user123'' ''SPEECH'' 1200) 30 init_state"
  have cfg: "RATE_LIMITS ''SPEECH'' = Some ?cfg" by (simp add: RATE_LIMITS_def)
  have hm: "healthy (rate_limit_cache ?sm)"
    by (simp add: healthy_def init_state_def empty_cache_def with_rate_entry_def)
  have atm: "at_limit (entries (rate_limit_cache ?sm)
                  (minute_key ''user123'' ''SPEECH'' ((py_int t div 60) * 60)))
                (REQUESTS_PER_MINUTE ?cfg)"
    unfolding assms by (simp add: at_limit_def with_rate_entry_def)
  show ?thesis
    unfolding rate_limit_check_step [OF cfg hm] using atm assms by simp
qed

theorem retry_after_bounds_and_order_witness:
  "fst (rate_limit_check ''SPEECH'' ''user123'' (py_int (2421 / 2)) verified_request
          (with_rate_entry (minute_key ''user123'' ''SPEECH'' 1200) 30 init_state))
     = Inr (Some ([(''error'', PStr ''Rate limit exceeded''), (''retryAfter'', PInt 50)], 429))
   \<and> fst (rate_limit_check ''SPEECH'' ''user123'' (py_int (12299 / 10)) verified_request
          (with_rate_entry (minute_key ''user123'' ''SPEECH'' 1200) 30 init_state))
     = Inr (Some ([(''error'', PStr ''Rate limit exceeded''), (''retryAfter'', PInt 31)], 429))
   \<and> user_id verified_request = Some ''user123''
   \<and> rate_limiter ''SPEECH'' ok_handler (2421 / 2) verified_request
        (with_rate_entry (minute_key ''user123'' ''SPEECH'' 1200) 30 init_state)
     = (([(''error'', PStr ''Rate limit exceeded''), (''retryAfter'', PInt 50)], 429),
        with_rate_entry (minute_key ''user123'' ''SPEECH'' 1200) 30 init_state)
   \<and> (2421 / 2 :: real) \<le> 12299 / 10
   \<and> retry_after ([(''error'', PStr ''Rate limit exceeded''), (''retryAfter'', PInt 50)], 429)
       = Some (PInt 50)
   \<and> retry_after ([(''error'', PStr ''Rate limit exceeded''), (''retryAfter'', PInt 31)], 429)
       = Some (PInt 31)
   \<and> error_of ([(''error'', PStr ''Rate limit exceeded''), (''retryAfter'', PInt 50)], 429)
       = Some (PStr ''Rate limit exceeded'')
   \<and> error_of ([(''error'', PStr ''Rate limit exceeded''), (''retryAfter'', PInt 31)], 429)
       = Some (PStr ''Rate limit exceeded'')
   \<and> py_int (2421 / 2) div 60 = py_int (12299 / 10) div 60
   \<and> (31 :: int) \<le> 50
   \<and> ((31 :: int) < 50) = (py_int (2421 / 2) < py_int (12299 / 10))"
proof -
  let ?sm = "with_rate_entry (minute_key ''user123'' ''SPEECH'' 1200) 30 init_state"
  let ?r1 = "([(''error'', PStr ''Rate limit exceeded''), (''retryAfter'', PInt 50)], 429)
               :: response"
  let ?r2 = "([(''error'', PStr ''Rate limit exceeded''), (''retryAfter'', PInt 31)], 429)
               :: response"
  have n1: "py_int (2421 / 2) = 1210" and n2: "py_int (12299 / 10) = 1229"
    by (simp_all add: py_int_def)
  have c1: "fst (rate_limit_check ''SPEECH'' ''user123'' (py_int (2421 / 2)) verified_request ?sm)
      = Inr (Some ?r1)"
    by (subst speech_minute_rejection) (simp_all add: n1)
  have c2: "fst (rate_limit_check ''SPEECH'' ''user123'' (py_int (12299 / 10)) verified_request ?sm)
      = Inr (Some ?r2)"
    by (subst speech_minute_rejection) (simp_all add: n2)
  have uid: "user_id verified_request = Some ''user123''" by (simp add: verified_request_def)
  have ne: "''user123'' \<noteq> []" by simp
  have le: "(2421 / 2 :: real) \<le> 12299 / 10" by simp
  have v1: "retry_after ?r1 = Some (PInt 50)" and v2: "retry_after ?r2 = Some (PInt 31)"
    by (simp_all add: retry_after_def)
  have e1: "error_of ?r1 = Some (PStr ''Rate limit exceeded'')"
    and e2: "error_of ?r2 = Some (PStr ''Rate limit exceeded'')"
    by (simp_all add: error_of_def)
  have w: "py_int (2421 / 2) div 60 = py_int (12299 / 10) div 60" by (simp add: n1 n2)
  note A = retry_after_bounds_and_order [where service = "''SPEECH''" and uid = "''user123''"
      and t = "2421 / 2" and req = verified_request and s = ?sm and r = ?r1 and f = ok_handler,
      THEN conjunct1, THEN mp, OF c1, THEN conjunct2, THEN mp, OF conjI [OF uid ne]]
  note B = retry_after_bounds_and_order [where service = "''SPEECH''" and uid = "''user123''"
      and ?t1.0 = "2421 / 2" and ?t2.0 = "12299 / 10" and ?req1.0 = verified_request
      and ?req2.0 = verified_request and ?s1.0 = ?sm and ?s2.0 = ?sm and ?r1.0 = ?r1 and ?r2.0 = ?r2
      and ?v1.0 = 50 and ?v2.0 = 31,
      THEN conjunct2, THEN mp,
      OF conjI [OF le conjI [OF c1 conjI [OF c2 conjI [OF v1 conjI [OF v2
           disjI1 [OF conjI [OF e1 conjI [OF e2 w]]]]]]]]]
  show ?thesis
    by (intro conjI)
      (rule c1, rule c2, rule uid, rule A, rule le, rule v1, rule v2, rule e1, rule e2, rule w,
       rule B [THEN conjunct1], rule B [THEN conjunct2])
qed

text \<open>
  The value does not strictly decrease with the clock: the code keeps whole seconds, so
  two rejections at 1200.2 and 1200.7 both report 60.
\<close>

theorem retry_after_strict_decrease_refuted:
  "(6001 / 5 :: real) < 12007 / 10
   \<and> py_int (6001 / 5) div 60 * 60 = 1200
   \<and> py_int (12007 / 10) div 60 * 60 = 1200
   \<and> rate_limiter ''SPEECH'' ok_handler (6001 / 5) verified_request
        (with_rate_entry (minute_key ''user123'' ''SPEECH'' 1200) 30 init_state)
     = (([(''error'', PStr ''Rate limit exceeded''), (''retryAfter'', PInt 60)], 429),
        with_rate_entry (minute_key ''user123'' ''SPEECH'' 1200) 30 init_state)
   \<and> rate_limiter ''SPEECH'' ok_handler (12007 / 10) verified_request
        (with_rate_entry (minute_key ''user123'' ''SPEECH'' 1200) 30 init_state)
     = (([(''error'', PStr ''Rate limit exceeded''), (''retryAfter'', PInt 60)], 429),
        with_rate_entry (minute_key ''user123'' ''SPEECH'' 1200) 30 init_state)"
proof -
  let ?sm = "with_rate_entry (minute_key ''user123'' ''SPEECH'' 1200) 30 init_state"
  have n1: "py_int (6001 / 5) = 1200" and n2: "py_int (12007 / 10) = 1200"
    by (simp_all add: py_int_def)
  have uid: "user_id verified_request = Some ''user123''" "''user123'' \<noteq> []"
    by (simp_all add: verified_request_def)
  have lt: "(6001 / 5 :: real) < 12007 / 10" by simp
  have w1: "py_int (6001 / 5) div 60 * 60 = 1200" and w2: "py_int (12007 / 10) div 60 * 60 = 1200"
    by (simp_all add: n1 n2)
  have a: "rate_limiter ''SPEECH'' ok_handler (6001 / 5) verified_request ?sm
     = (([(''error'', PStr ''Rate limit exceeded''), (''retryAfter'', PInt 60)], 429), ?sm)"
    unfolding rate_limiter_verified [OF uid] speech_minute_rejection [OF w1] by (simp add: n1)
  have b: "rate_limiter ''SPEECH'' ok_handler (12007 / 10) verified_request ?sm
     = (([(''error'', PStr ''Rate limit exceeded''), (''retryAfter'', PInt 60)], 429), ?sm)"
    unfolding rate_limiter_verified [OF uid] speech_minute_rejection [OF w2] by (simp add: n2)
  show ?thesis by (intro conjI) (rule lt, rule w1, rule w2, rule a, rule b)
qed

section \<open>Audit records of the admission pipeline\<close>








section \<open>Results processing: what the breaker counts\<close>

lemma processor_log_audit_event: "processor (log_audit_event t e s) = processor s"
  by (simp add: log_audit_event_def Let_def split: sum.splits)

lemma results_cache_log_audit_event: "results_cache (log_audit_event t e s) = results_cache s"
  by (simp add: log_audit_event_def Let_def split: sum.splits)

lemma process_results_failure:
  assumes "process_results_try ck sc d s = (Inl e, s')"
  shows "fst (process_results ck sc d s) = Inl e"
    and "processor (snd (process_results ck sc d s))
           = handle_circuit_breaker_failure (t_failure ck) (processor s')"
    and "results_cache (snd (process_results ck sc d s)) = results_cache s'"
  using assms
  by (simp_all add: process_results_def Let_def processor_log_audit_event
      results_cache_log_audit_event)

lemma process_results_success:
  assumes "process_results_try ck sc d s = (Inr r, s')"
  shows "process_results ck sc d s = (Inr r, s')"
  using assms by (simp add: process_results_def)

lemma try_invalid_request:
  "mk_request d = Inl e \<Longrightarrow> process_results_try ck sc d s = (Inl e, s)"
  by (simp add: process_results_try_def)

lemma try_invalid_results:
  "mk_request d = Inr request \<Longrightarrow>
   validate_verification_results (verification_results request) = Inl e \<Longrightarrow>
   process_results_try ck sc d s = (Inl e, s)"
  by (simp add: process_results_try_def)

lemma try_cached:
  "mk_request d = Inr request \<Longrightarrow>
   validate_verification_results (verification_results request) = Inr u \<Longrightarrow>
   cache_get (results_cache s) (''results_'' @ submission_id request) = Inr (Some c) \<Longrightarrow>
   process_results_try ck sc d s =
     (Inr \<lparr>resp_submission_id = submission_id request, resp_processed = True,
           resp_smart_contract_tx_hash = Some (cr_txHash c), resp_cached = True,
           resp_processing_time = ms_end ck - ms_start ck\<rparr>, s)"
  by (simp add: process_results_try_def Let_def)

lemma try_downstream_failure:
  "mk_request d = Inr request \<Longrightarrow>
   validate_verification_results (verification_results request) = Inr u \<Longrightarrow>
   cache_get (results_cache s) (''results_'' @ submission_id request) = Inr None \<Longrightarrow>
   is_circuit_breaker_open (t_breaker ck) (processor s) = (False, p) \<Longrightarrow>
   process_verification_results sc request = Inl e \<Longrightarrow>
   process_results_try ck sc d s = (Inl e, s\<lparr>processor := p\<rparr>)"
  by (simp add: process_results_try_def Let_def)

lemma try_downstream_success:
  "mk_request d = Inr request \<Longrightarrow>
   validate_verification_results (verification_results request) = Inr u \<Longrightarrow>
   cache_get (results_cache s) (''results_'' @ submission_id request) = Inr None \<Longrightarrow>
   is_circuit_breaker_open (t_breaker ck) (processor s) = (False, p) \<Longrightarrow>
   process_verification_results sc request = Inr result \<Longrightarrow>
   set_raises (results_cache s) = None \<Longrightarrow>
   fst (process_results_try ck sc d s)
     = Inr \<lparr>resp_submission_id = submission_id request, resp_processed = pr_processed result,
           resp_smart_contract_tx_hash = Some (pr_txHash result), resp_cached = False,
           resp_processing_time = ms_end ck - ms_start ck\<rparr>
   \<and> processor (snd (process_results_try ck sc d s)) = record_success p"
  by (simp add: process_results_try_def Let_def cache_set_def processor_log_audit_event)

lemma mk_request_sample: "mk_request (results_request q) = Inr (parsed_request q)"
  by (simp add: mk_request_def results_request_def parsed_request_def)

lemma validate_sample_ok:
  "validate_verification_results (verification_results (parsed_request (PInt 85))) = Inr ()"
  by (simp add: validate_verification_results_def parsed_request_def in_range_def dict_get_def
      is_str_of_len2_def)

lemma validate_sample_bad:
  "validate_verification_results (verification_results (parsed_request (PInt 150)))
     = Inl (ValueError ''Quality score must be a number between 0 and 100'')"
  by (simp add: validate_verification_results_def parsed_request_def in_range_def dict_get_def
      is_str_of_len2_def)

lemma downstream_sample_failure:
  "process_verification_results (Inl (OtherException ''timeout'')) (parsed_request (PInt 85))
     = Inl (ValueError ''Results processing failed: timeout'')"
  by (simp add: process_verification_results_def process_verification_results_try_def
      parsed_request_def index_dict_def passes_quality_of_def py_ge_def double_0_6_def)

lemma downstream_sample_success:
  "process_verification_results (Inr ''0xabc'') (parsed_request (PInt 85))
     = Inr \<lparr>pr_processed = True, pr_txHash = ''0xabc'', pr_passesQuality = True\<rparr>"
  by (simp add: process_verification_results_def process_verification_results_try_def
      parsed_request_def index_dict_def passes_quality_of_def py_ge_def double_0_6_def)

lemma sample_cache_miss:
  "cache_get (results_cache init_state) (''results_'' @ submission_id (parsed_request q)) = Inr None"
  by (simp add: cache_get_def init_state_def empty_cache_def)

lemma sample_cache_hit:
  "cache_get (results_cache (with_cached_result init_state))
      (''results_'' @ submission_id (parsed_request q))
     = Inr (Some \<lparr>cr_txHash = ''0xabc'', cr_timestamp = ''2023-11-14T22:00:00.000Z'',
                  cr_qualityScore = PInt 85\<rparr>)"
  by (simp add: cache_get_def init_state_def empty_cache_def with_cached_result_def
      parsed_request_def)

lemma sample_breaker_closed:
  "is_circuit_breaker_open (t_breaker sample_clock) (processor init_state) = (False, init_processor)"
  by (simp add: is_circuit_breaker_open_def init_state_def init_processor_def)

text \<open>
  Claim C6. The breaker changes with the outcome of an invocation of \<open>process_results\<close>.
  An invocation that fails before the downstream call is attempted, because the request
  cannot be built or because the verification results fail validation, raises that error
  and records a breaker failure: the failure count grows by one and the time of the last
  failure becomes the clock reading of the handler. With a valid request that is not in
  the results cache and a closed breaker, a downstream call that fails records a breaker
  failure in the same way, and a downstream call that succeeds sets the failure count to
  zero and leaves the time of the last failure. An invocation answered from the results
  cache leaves the breaker as it was.
\<close>

theorem circuit_breaker_counts_failed_invocations:
  "(mk_request d = Inl e
      \<longrightarrow> fst (process_results ck sc d s) = Inl e
          \<and> processor (snd (process_results ck sc d s))
              = handle_circuit_breaker_failure (t_failure ck) (processor s))
   \<and> (mk_request d = Inr request
        \<and> validate_verification_results (verification_results request) = Inl e
      \<longrightarrow> fst (process_results ck sc d s) = Inl e
          \<and> processor (snd (process_results ck sc d s))
              = handle_circuit_breaker_failure (t_failure ck) (processor s)
          \<and> circuit_breaker_failures (processor (snd (process_results ck sc d s)))
              = circuit_breaker_failures (processor s) + 1
          \<and> last_failure_time (processor (snd (process_results ck sc d s))) = t_failure ck)
   \<and> (mk_request d = Inr request
        \<and> validate_verification_results (verification_results request) = Inr u
        \<and> cache_get (results_cache s) (''results_'' @ submission_id request) = Inr None
        \<and> is_circuit_breaker_open (t_breaker ck) (processor s) = (False, p)
        \<and> process_verification_results sc request = Inl e
      \<longrightarrow> fst (process_results ck sc d s) = Inl e
          \<and> processor (snd (process_results ck sc d s))
              = handle_circuit_breaker_failure (t_failure ck) p)
   \<and> (mk_request d = Inr request
        \<and> validate_verification_results (verification_results request) = Inr u
        \<and> cache_get (results_cache s) (''results_'' @ submission_id request) = Inr None
        \<and> is_circuit_breaker_open (t_breaker ck) (processor s) = (False, p)
        \<and> process_verification_results sc request = Inr result
        \<and> set_raises (results_cache s) = None
      \<longrightarrow> processor (snd (process_results ck sc d s)) = record_success p
          \<and> circuit_breaker_failures (processor (snd (process_results ck sc d s))) = 0
          \<and> last_failure_time (processor (snd (process_results ck sc d s)))
              = last_failure_time (processor s))
   \<and> (mk_request d = Inr request
        \<and> validate_verification_results (verification_results request) = Inr u
        \<and> cache_get (results_cache s) (''results_'' @ submission_id request) = Inr (Some c)
      \<longrightarrow> processor (snd (process_results ck sc d s)) = processor s)"
proof -
  have a: "fst (process_results ck sc d s) = Inl e
          \<and> processor (snd (process_results ck sc d s))
              = handle_circuit_breaker_failure (t_failure ck) (processor s)"
    if "mk_request d = Inl e"
    using process_results_failure [OF try_invalid_request [OF that]] by blast
  have b: "fst (process_results ck sc d s) = Inl e
          \<and> processor (snd (process_results ck sc d s))
              = handle_circuit_breaker_failure (t_failure ck) (processor s)
          \<and> circuit_breaker_failures (processor (snd (process_results ck sc d s)))
              = circuit_breaker_failures (processor s) + 1
          \<and> last_failure_time (processor (snd (process_results ck sc d s))) = t_failure ck"
    if "mk_request d = Inr request"
      "validate_verification_results (verification_results request) = Inl e"
    using process_results_failure [OF try_invalid_results [OF that]]
    by (simp add: handle_circuit_breaker_failure_def)
  have c: "fst (process_results ck sc d s) = Inl e
          \<and> processor (snd (process_results ck sc d s))
              = handle_circuit_breaker_failure (t_failure ck) p"
    if "mk_request d = Inr request"
      "validate_verification_results (verification_results request) = Inr u"
      "cache_get (results_cache s) (''results_'' @ submission_id request) = Inr None"
      "is_circuit_breaker_open (t_breaker ck) (processor s) = (False, p)"
      "process_verification_results sc request = Inl e"
    using process_results_failure [OF try_downstream_failure [OF that]] by simp
  have d: "processor (snd (process_results ck sc d s)) = record_success p
          \<and> circuit_breaker_failures (processor (snd (process_results ck sc d s))) = 0
          \<and> last_failure_time (processor (snd (process_results ck sc d s)))
              = last_failure_time (processor s)"
    if h: "mk_request d = Inr request"
      "validate_verification_results (verification_results request) = Inr u"
      "cache_get (results_cache s) (''results_'' @ submission_id request) = Inr None"
      "is_circuit_breaker_open (t_breaker ck) (processor s) = (False, p)"
      "process_verification_results sc request = Inr result"
      "set_raises (results_cache s) = None"
  proof -
    note T = try_downstream_success [OF h]
    obtain r s' where t: "process_results_try ck sc d s = (Inr r, s')"
      using T by (cases "process_results_try ck sc d s") auto
    have pr: "processor (snd (process_results ck sc d s)) = record_success p"
      using T unfolding process_results_success [OF t] t by simp
    have lf: "last_failure_time p = last_failure_time (processor s)"
      using h(4) by (auto simp: is_circuit_breaker_open_def split: if_splits)
    show ?thesis using pr lf by (simp add: record_success_def)
  qed
  have e: "processor (snd (process_results ck sc d s)) = processor s"
    if "mk_request d = Inr request"
      "validate_verification_results (verification_results request) = Inr u"
      "cache_get (results_cache s) (''results_'' @ submission_id request) = Inr (Some c)"
    unfolding process_results_success [OF try_cached [OF that]] by simp
  show ?thesis using a b c d e by blast
qed

theorem circuit_breaker_counts_failed_invocations_witness:
  "mk_request (results_request (PInt 150)) = Inr (parsed_request (PInt 150))
   \<and> validate_verification_results (verification_results (parsed_request (PInt 150)))
       = Inl (ValueError ''Quality score must be a number between 0 and 100'')
   \<and> fst (process_results sample_clock (Inr ''0xabc'') (results_request (PInt 150)) init_state)
       = Inl (ValueError ''Quality score must be a number between 0 and 100'')
   \<and> circuit_breaker_failures
        (processor (snd (process_results sample_clock (Inr ''0xabc'') (results_request (PInt 150))
                           init_state)))
       = circuit_breaker_failures (processor init_state) + 1
   \<and> last_failure_time
        (processor (snd (process_results sample_clock (Inr ''0xabc'') (results_request (PInt 150))
                           init_state)))
       = t_failure sample_clock
   \<and> mk_request (results_request (PInt 85)) = Inr (parsed_request (PInt 85))
   \<and> validate_verification_results (verification_results (parsed_request (PInt 85))) = Inr ()
   \<and> cache_get (results_cache init_state) (''results_'' @ submission_id (parsed_request (PInt 85)))
       = Inr None
   \<and> is_circuit_breaker_open (t_breaker sample_clock) (processor init_state)
       = (False, init_processor)
   \<and> process_verification_results (Inl (OtherException ''timeout'')) (parsed_request (PInt 85))
       = Inl (ValueError ''Results processing failed: timeout'')
   \<and> processor (snd (process_results sample_clock (Inl (OtherException ''timeout''))
                         (results_request (PInt 85)) init_state))
       = handle_circuit_breaker_failure (t_failure sample_clock) init_processor
   \<and> process_verification_results (Inr ''0xabc'') (parsed_request (PInt 85))
       = Inr \<lparr>pr_processed = True, pr_txHash = ''0xabc'', pr_passesQuality = True\<rparr>
   \<and> set_raises (results_cache init_state) = None
   \<and> circuit_breaker_failures
        (processor (snd (process_results sample_clock (Inr ''0xabc'') (results_request (PInt 85))
                           init_state))) = 0
   \<and> cache_get (results_cache (with_cached_result init_state))
        (''results_'' @ submission_id (parsed_request (PInt 85)))
       = Inr (Some \<lparr>cr_txHash = ''0xabc'', cr_timestamp = ''2023-11-14T22:00:00.000Z'',
                    cr_qualityScore = PInt 85\<rparr>)
   \<and> processor (snd (process_results sample_clock (Inr ''0xdef'') (results_request (PInt 85))
                         (with_cached_result init_state)))
       = processor (with_cached_result init_state)"
proof -
  let ?bad = "ValueError ''Quality score must be a number between 0 and 100''"
  let ?c = "\<lparr>cr_txHash = ''0xabc'', cr_timestamp = ''2023-11-14T22:00:00.000Z'',
             cr_qualityScore = PInt 85\<rparr>"
  note m150 = mk_request_sample [of "PInt 150"]
  note m85 = mk_request_sample [of "PInt 85"]
  note miss = sample_cache_miss [of "PInt 85"]
  note hit = sample_cache_hit [of "PInt 85"]
  have sr: "set_raises (results_cache init_state) = None"
    by (simp add: init_state_def empty_cache_def)
  have rh: "cache_get (results_cache (with_cached_result init_state))
        (''results_'' @ submission_id (parsed_request (PInt 85))) = Inr (Some ?c)"
    by (rule hit)
  note B = circuit_breaker_counts_failed_invocations [where d = "results_request (PInt 150)"
      and request = "parsed_request (PInt 150)" and e = ?bad and ck = sample_clock
      and sc = "Inr ''0xabc''" and s = init_state,
      THEN conjunct2, THEN conjunct1, THEN mp, OF conjI [OF m150 validate_sample_bad]]
  note C = circuit_breaker_counts_failed_invocations [where d = "results_request (PInt 85)"
      and request = "parsed_request (PInt 85)" and u = "()" and ck = sample_clock
      and sc = "Inl (OtherException ''timeout'')" and s = init_state and p = init_processor
      and e = "ValueError ''Results processing failed: timeout''",
      THEN conjunct2, THEN conjunct2, THEN conjunct1, THEN mp,
      OF conjI [OF m85 conjI [OF validate_sample_ok conjI [OF miss
           conjI [OF sample_breaker_closed downstream_sample_failure]]]]]
  note D = circuit_breaker_counts_failed_invocations [where d = "results_request (PInt 85)"
      and request = "parsed_request (PInt 85)" and u = "()" and ck = sample_clock
      and sc = "Inr ''0xabc''" and s = init_state and p = init_processor
      and result = "\<lparr>pr_processed = True, pr_txHash = ''0xabc'', pr_passesQuality = True\<rparr>",
      THEN conjunct2, THEN conjunct2, THEN conjunct2, THEN conjunct1, THEN mp,
      OF conjI [OF m85 conjI [OF validate_sample_ok conjI [OF miss
           conjI [OF sample_breaker_closed conjI [OF downstream_sample_success sr]]]]]]
  note E = circuit_breaker_counts_failed_invocations [where d = "results_request (PInt 85)"
      and request = "parsed_request (PInt 85)" and u = "()" and ck = sample_clock
      and sc = "Inr ''0xdef''" and s = "with_cached_result init_state" and c = ?c,
      THEN conjunct2, THEN conjunct2, THEN conjunct2, THEN conjunct2, THEN mp,
      OF conjI [OF m85 conjI [OF validate_sample_ok rh]]]
  show ?thesis
    by (intro conjI)
      (rule m150, rule validate_sample_bad, rule B [THEN conjunct1],
       rule B [THEN conjunct2, THEN conjunct2, THEN conjunct1],
       rule B [THEN conjunct2, THEN conjunct2, THEN conjunct2],
       rule m85, rule validate_sample_ok, rule miss, rule sample_breaker_closed,
       rule downstream_sample_failure, rule C [THEN conjunct2],
       rule downstream_sample_success, rule sr, rule D [THEN conjunct2, THEN conjunct1],
       rule rh, rule E)
qed

text \<open>
  An invocation that ends at input validation, before any downstream call, does change the
  breaker: from the initial state a request with quality score 150 raises the validation
  error and leaves one counted failure, stamped with the clock reading of the handler.
\<close>

theorem validation_failure_counts_as_breaker_failure:
  "fst (process_results sample_clock (Inr ''0xabc'') (results_request (PInt 150)) init_state)
     = Inl (ValueError ''Quality score must be a number between 0 and 100'')
   \<and> circuit_breaker_failures (processor init_state) = 0
   \<and> last_failure_time (processor init_state) = 0
   \<and> circuit_breaker_failures
        (processor (snd (process_results sample_clock (Inr ''0xabc'') (results_request (PInt 150))
                           init_state))) = 1
   \<and> last_failure_time
        (processor (snd (process_results sample_clock (Inr ''0xabc'') (results_request (PInt 150))
                           init_state))) = 3400000001 / 2"
proof -
  note T = try_invalid_results [OF mk_request_sample validate_sample_bad,
      of sample_clock "Inr ''0xabc''" init_state]
  note F = process_results_failure [OF T]
  have p0: "circuit_breaker_failures (processor init_state) = 0"
    "last_failure_time (processor init_state) = 0"
    by (simp_all add: init_state_def init_processor_def)
  have p1: "circuit_breaker_failures
        (processor (snd (process_results sample_clock (Inr ''0xabc'') (results_request (PInt 150))
                           init_state))) = 1"
    unfolding F(2) by (simp add: handle_circuit_breaker_failure_def p0)
  have p2: "last_failure_time
        (processor (snd (process_results sample_clock (Inr ''0xabc'') (results_request (PInt 150))
                           init_state))) = 3400000001 / 2"
    unfolding F(2) by (simp add: handle_circuit_breaker_failure_def sample_clock_def)
  show ?thesis by (intro conjI) (rule F(1), rule p0(1), rule p0(2), rule p1, rule p2)
qed

section \<open>Results processing: answers from the cache\<close>

text \<open>
  Claim C10. When the request can be built, its verification results pass validation and
  the results cache holds an entry for its submission id, \<open>process_results\<close> returns the
  cached answer (processed, cached, the stored transaction hash) and the state exactly as
  it was: the breaker is not evaluated, whatever its state, no audit record is written,
  and the outcome of the downstream call plays no part.
\<close>

theorem cached_results_bypass_breaker:
  "mk_request d = Inr request
     \<and> validate_verification_results (verification_results request) = Inr u
     \<and> cache_get (results_cache s) (''results_'' @ submission_id request) = Inr (Some c)
   \<longrightarrow> process_results ck sc d s
        = (Inr \<lparr>resp_submission_id = submission_id request, resp_processed = True,
                resp_smart_contract_tx_hash = Some (cr_txHash c), resp_cached = True,
                resp_processing_time = ms_end ck - ms_start ck\<rparr>, s)
      \<and> process_results ck sc' d s = process_results ck sc d s"
proof
  assume h: "mk_request d = Inr request
     \<and> validate_verification_results (verification_results request) = Inr u
     \<and> cache_get (results_cache s) (''results_'' @ submission_id request) = Inr (Some c)"
  then have m: "mk_request d = Inr request"
    and v: "validate_verification_results (verification_results request) = Inr u"
    and g: "cache_get (results_cache s) (''results_'' @ submission_id request) = Inr (Some c)"
    by blast+
  show "process_results ck sc d s
        = (Inr \<lparr>resp_submission_id = submission_id request, resp_processed = True,
                resp_smart_contract_tx_hash = Some (cr_txHash c), resp_cached = True,
                resp_processing_time = ms_end ck - ms_start ck\<rparr>, s)
      \<and> process_results ck sc' d s = process_results ck sc d s"
    unfolding process_results_success [OF try_cached [OF m v g, of ck sc]]
      process_results_success [OF try_cached [OF m v g, of ck sc']]
    by simp
qed

theorem cached_results_bypass_breaker_witness:
  "mk_request (results_request (PInt 85)) = Inr (parsed_request (PInt 85))
   \<and> validate_verification_results (verification_results (parsed_request (PInt 85))) = Inr ()
   \<and> cache_get (results_cache (with_cached_result open_breaker_state))
        (''results_'' @ submission_id (parsed_request (PInt 85)))
       = Inr (Some \<lparr>cr_txHash = ''0xabc'', cr_timestamp = ''2023-11-14T22:00:00.000Z'',
                    cr_qualityScore = PInt 85\<rparr>)
   \<and> fst (is_circuit_breaker_open (t_breaker sample_clock)
             (processor (with_cached_result open_breaker_state))) = True
   \<and> process_results sample_clock (Inl (OtherException ''timeout'')) (results_request (PInt 85))
        (with_cached_result open_breaker_state)
       = (Inr \<lparr>resp_submission_id = ''sub-1'', resp_processed = True,
               resp_smart_contract_tx_hash = Some ''0xabc'', resp_cached = True,
               resp_processing_time = 120\<rparr>,
          with_cached_result open_breaker_state)"
proof -
  let ?c = "\<lparr>cr_txHash = ''0xabc'', cr_timestamp = ''2023-11-14T22:00:00.000Z'',
             cr_qualityScore = PInt 85\<rparr>"
  let ?s = "with_cached_result open_breaker_state"
  have hit: "cache_get (results_cache ?s) (''results_'' @ submission_id (parsed_request (PInt 85)))
      = Inr (Some ?c)"
    by (simp add: cache_get_def init_state_def empty_cache_def with_cached_result_def
        parsed_request_def open_breaker_state_def)
  have "processor ?s
      = \<lparr>circuit_breaker_failures = 5, circuit_breaker_threshold = 5,
         circuit_breaker_timeout = 300, last_failure_time = 1699999994\<rparr>"
    by (simp add: with_cached_result_def open_breaker_state_def init_processor_def
        handle_circuit_breaker_failure_def)
  then have opn: "fst (is_circuit_breaker_open (t_breaker sample_clock) (processor ?s)) = True"
    by (simp add: is_circuit_breaker_open_def sample_clock_def)
  note A = cached_results_bypass_breaker [where d = "results_request (PInt 85)"
      and request = "parsed_request (PInt 85)" and u = "()" and s = ?s and c = ?c
      and ck = sample_clock and sc = "Inl (OtherException ''timeout'')",
      THEN mp, OF conjI [OF mk_request_sample conjI [OF validate_sample_ok hit]], THEN conjunct1]
  have r: "process_results sample_clock (Inl (OtherException ''timeout'')) (results_request (PInt 85)) ?s
       = (Inr \<lparr>resp_submission_id = ''sub-1'', resp_processed = True,
               resp_smart_contract_tx_hash = Some ''0xabc'', resp_cached = True,
               resp_processing_time = 120\<rparr>, ?s)"
    unfolding A by (simp add: parsed_request_def sample_clock_def)
  show ?thesis
    by (intro conjI) (rule mk_request_sample, rule validate_sample_ok, rule hit, rule opn, rule r)
qed

text \<open>
  Validation comes before the cache lookup. A request whose submission id is in the
  results cache but whose quality score is 150 is not answered from the cache: it raises
  the validation error and the breaker counts one failure.
\<close>

theorem cached_submission_with_invalid_results_refuted:
  "entries (results_cache (with_cached_result init_state)) ''results_sub-1''
     = Some \<lparr>cr_txHash = ''0xabc'', cr_timestamp = ''2023-11-14T22:00:00.000Z'',
             cr_qualityScore = PInt 85\<rparr>
   \<and> rd_submissionId (results_request (PInt 150)) = Some ''sub-1''
   \<and> fst (process_results sample_clock (Inr ''0xabc'') (results_request (PInt 150))
            (with_cached_result init_state))
       = Inl (ValueError ''Quality score must be a number between 0 and 100'')
   \<and> circuit_breaker_failures (processor (with_cached_result init_state)) = 0
   \<and> circuit_breaker_failures
        (processor (snd (process_results sample_clock (Inr ''0xabc'') (results_request (PInt 150))
                           (with_cached_result init_state)))) = 1"
proof -
  let ?s = "with_cached_result init_state"
  note T = try_invalid_results [OF mk_request_sample validate_sample_bad,
      of sample_clock "Inr ''0xabc''" ?s]
  note F = process_results_failure [OF T]
  have e: "entries (results_cache ?s) ''results_sub-1''
     = Some \<lparr>cr_txHash = ''0xabc'', cr_timestamp = ''2023-11-14T22:00:00.000Z'',
             cr_qualityScore = PInt 85\<rparr>"
    by (simp add: with_cached_result_def)
  have i: "rd_submissionId (results_request (PInt 150)) = Some ''sub-1''"
    by (simp add: results_request_def)
  have p0: "circuit_breaker_failures (processor ?s) = 0"
    by (simp add: with_cached_result_def init_state_def init_processor_def)
  have p1: "circuit_breaker_failures
        (processor (snd (process_results sample_clock (Inr ''0xabc'') (results_request (PInt 150))
                           ?s))) = 1"
    unfolding F(2) by (simp add: handle_circuit_breaker_failure_def p0)
  show ?thesis by (intro conjI) (rule e, rule i, rule F(1), rule p0, rule p1)
qed

end
